theory Spec2Isabelle
  imports Complex_Main
begin

section \<open>Python values, exceptions and the output trace\<close>

text \<open>
  An exception is its class name and its message. The handlers in the program are
  \<^verbatim>\<open>except TypeError\<close> and \<^verbatim>\<open>except Exception\<close>; every exception of the model is
  an \<^verbatim>\<open>Exception\<close> (\<^verbatim>\<open>KeyboardInterrupt\<close> and \<^verbatim>\<open>SystemExit\<close> raised from outside
  are not modelled).
\<close>

datatype exn = Exn (exn_class: string) (exn_msg: string)

definition is_TypeError :: "exn \<Rightarrow> bool" where
  "is_TypeError e = (exn_class e = ''TypeError'')"

text \<open>
  \<^verbatim>\<open>datetime.datetime\<close>: the calendar fields and the time zone. The only time zone
  the program names is \<^verbatim>\<open>datetime.timezone.utc\<close>; a datetime is naive (\<open>None\<close>) or
  carries UTC.
\<close>

datatype tzinfo = UTC

record datetime =
  year :: int
  month :: int
  day :: int
  hour :: int
  minute :: int
  second :: int
  microsecond :: int
  tz :: "tzinfo option"

text \<open>References to documents and collections: the program reads \<^verbatim>\<open>.id\<close> and \<^verbatim>\<open>.path\<close>.\<close>

datatype doc_ref = DocRef (doc_id: string) (doc_path: string)

datatype col_ref = ColRef (col_id: string) (col_path: string)

text \<open>
  The Python objects that can reach the serializer.
  \<^item> \<open>PNone\<close> .. \<open>PDict\<close>: the types the JSON encoder encodes by itself (field names
    of a document are strings);
  \<^item> \<open>CyclicList\<close>: the list \<^verbatim>\<open>l\<close> after \<^verbatim>\<open>l.append(l)\<close>, for which the encoder
    raises \<^verbatim>\<open>ValueError\<close>;
  \<^item> \<open>FirestoreTimestamp s n\<close>: a \<^verbatim>\<open>google.protobuf.timestamp_pb2.Timestamp\<close> with
    \<^verbatim>\<open>seconds = s\<close> and \<^verbatim>\<open>nanos = n\<close> (it has \<^verbatim>\<open>ToDatetime\<close>);
  \<^item> \<open>Sentinel d\<close>: an instance of the class of \<^verbatim>\<open>firestore.SERVER_TIMESTAMP\<close>
    (\<^verbatim>\<open>transforms.Sentinel\<close>, whose only attribute is \<^verbatim>\<open>description\<close>);
  \<^item> \<open>DocumentReference\<close>, \<open>GeoPoint\<close>, \<open>PyDate\<close>, \<open>PyDatetime\<close>;
  \<^item> \<open>Other\<close>: an object of any other class, given by its class name, the outcome of
    \<^verbatim>\<open>str(obj)\<close> and whether \<^verbatim>\<open>obj == firestore.SERVER_TIMESTAMP\<close> holds.
\<close>

datatype pyobj =
    PNone
  | PBool bool
  | PInt int
  | PFloat rat
  | PStr string
  | PList "pyobj list"
  | PDict "(string \<times> pyobj) list"
  | CyclicList
  | FirestoreTimestamp int int
  | Sentinel string
  | DocumentReference doc_ref
  | GeoPoint rat rat
  | PyDate int int int
  | PyDatetime datetime
  | Other (other_class: string) (other_str: "exn + string") (other_eq_sentinel: bool)

text \<open>The value the JSON encoder has encoded (the text layout is not modelled).\<close>

datatype json =
    JNull
  | JBool bool
  | JInt int
  | JFloat rat
  | JString string
  | JArray "json list"
  | JObject "(string \<times> json) list"

text \<open>A query on a collection: the collection itself, or \<^verbatim>\<open>col_ref.limit(n)\<close>.\<close>

datatype query = Query (query_col: col_ref) (query_limit: "nat option")

text \<open>
  The trace of a run: one constructor for each \<^verbatim>\<open>print\<close> of the program (its text is
  given by \<open>render\<close> below), and one for each call to the store
  (\<open>Fetch\<close> for \<^verbatim>\<open>query.stream()\<close>, \<open>ListCollections\<close> for \<^verbatim>\<open>doc_ref.collections()\<close>,
  \<open>ListRootCollections\<close> for \<^verbatim>\<open>db.collections()\<close>).
\<close>

datatype event =
    SerializeWarning string exn
  | MaxDepthNotice int int string
  | SeparatorNL int
  | ProcessingCollection int string
  | Separator int
  | FetchingAll int string
  | FetchingUpTo int nat string
  | DocumentHeader int string
  | DocumentJson json
  | CheckingSubcollections int string
  | EmptyCollection int string
  | WarningError string
  | ErrorDetails int exn
  | Stdout string
  | Fetch query
  | ListCollections doc_ref
  | ListRootCollections

datatype channel = StandardOutput | StandardError

text \<open>\<^verbatim>\<open>str(n)\<close> for an integer and \<^verbatim>\<open>'  ' * n\<close>.\<close>

fun digits :: "nat \<Rightarrow> string" where
  "digits n = (if n < 10 then [char_of (48 + n)] else digits (n div 10) @ [char_of (48 + n mod 10)])"

definition str_int :: "int \<Rightarrow> string" where
  "str_int i = (if i < 0 then CHR ''-'' # digits (nat (- i)) else digits (nat i))"

definition apostrophe :: string where
  "apostrophe = [CHR 0x27]"

definition indent :: "int \<Rightarrow> string" where
  "indent n = concat (replicate (nat n) ''  '')"

section \<open>Calendar arithmetic of the \<^verbatim>\<open>datetime\<close> library\<close>

text \<open>
  The proleptic Gregorian date of a day number counted from 1970-01-01 (days before
  the epoch are negative; \<open>div\<close> and \<open>mod\<close> round down, as Python's \<^verbatim>\<open>//\<close> and \<^verbatim>\<open>%\<close>).
\<close>

definition civil_from_days :: "int \<Rightarrow> int \<times> int \<times> int" where
  "civil_from_days z0 =
     (let z = z0 + 719468;
          era = z div 146097;
          doe = z - era * 146097;
          yoe = (doe - doe div 1460 + doe div 36524 - doe div 146096) div 365;
          y = yoe + era * 400;
          doy = doe - (365 * yoe + yoe div 4 - yoe div 100);
          mp = (5 * doy + 2) div 153;
          d = doy - (153 * mp + 2) div 5 + 1;
          m = (if mp < 10 then mp + 3 else mp - 9)
      in (if m \<le> 2 then y + 1 else y, m, d))"

text \<open>
  \<^verbatim>\<open>_RoundTowardZero(value, divider)\<close> of \<^verbatim>\<open>google.protobuf\<close>, used by \<^verbatim>\<open>ToDatetime\<close>.
\<close>

definition RoundTowardZero :: "int \<Rightarrow> int \<Rightarrow> int" where
  "RoundTowardZero v dv =
     (let result = v div dv; remainder = v mod dv
      in if result < 0 \<and> remainder > 0 then result + 1 else result)"

text \<open>
  \<^verbatim>\<open>Timestamp.ToDatetime()\<close>: the library first checks the timestamp
  (\<^verbatim>\<open>_CheckTimestampValid\<close>: seconds from 0001-01-01 to 9999-12-31, nanos from 0 to
  999999999, else \<^verbatim>\<open>ValueError\<close>) and then returns the naive datetime
  \<^verbatim>\<open>epoch + timedelta(seconds=seconds, microseconds=_RoundTowardZero(nanos, 1000))\<close>.
  The sum of \<^verbatim>\<open>datetime\<close> raises \<^verbatim>\<open>OverflowError\<close> outside the years 1 to 9999, which
  a valid timestamp never reaches.
\<close>

definition CheckTimestampValid :: "int \<Rightarrow> int \<Rightarrow> exn option" where
  "CheckTimestampValid s n =
     (if s < - 62135596800 \<or> s > 253402300799 then
        Some (Exn ''ValueError''
               (''Timestamp is not valid: Seconds '' @ str_int s @
                '' must be in range [-62135596800, 253402300799].''))
      else if n < 0 \<or> n \<ge> 1000000000 then
        Some (Exn ''ValueError''
               (''Timestamp is not valid: Nanos '' @ str_int n @
                '' must be in a range [0, 999999].''))
      else None)"

definition ToDatetime :: "int \<Rightarrow> int \<Rightarrow> exn + datetime" where
  "ToDatetime s n =
     (case CheckTimestampValid s n of
        Some e \<Rightarrow> Inl e
      | None \<Rightarrow>
          (let us = s * 1000000 + RoundTowardZero n 1000;
               days = us div 86400000000;
               r = us mod 86400000000;
               (y, m, d) = civil_from_days days
           in if y < 1 \<or> 9999 < y then Inl (Exn ''OverflowError'' ''date value out of range'')
              else Inr \<lparr>year = y, month = m, day = d,
                        hour = r div 3600000000, minute = r div 60000000 mod 60,
                        second = r div 1000000 mod 60, microsecond = r mod 1000000,
                        tz = None\<rparr>))"

text \<open>Zero-padded decimal fields, as \<^verbatim>\<open>%02d\<close>, \<^verbatim>\<open>%03d\<close>, \<^verbatim>\<open>%04d\<close>, \<^verbatim>\<open>%06d\<close>.\<close>

definition digit :: "int \<Rightarrow> char" where
  "digit i = char_of (48 + nat (i mod 10))"

definition pad2 :: "int \<Rightarrow> string" where
  "pad2 i = [digit (i div 10), digit i]"

definition pad3 :: "int \<Rightarrow> string" where
  "pad3 i = [digit (i div 100), digit (i div 10), digit i]"

definition pad4 :: "int \<Rightarrow> string" where
  "pad4 i = [digit (i div 1000), digit (i div 100), digit (i div 10), digit i]"

definition pad6 :: "int \<Rightarrow> string" where
  "pad6 i = pad3 (i div 1000) @ pad3 i"

datatype timespec = Auto | Milliseconds

text \<open>
  \<^verbatim>\<open>date.isoformat()\<close> and \<^verbatim>\<open>datetime.isoformat(timespec=...)\<close>: with \<^verbatim>\<open>milliseconds\<close>
  the fraction is the microseconds divided by 1000, rounded down; with the default
  the fraction is printed when it is not zero; a datetime that carries a time zone
  has its UTC offset appended, which is \<^verbatim>\<open>+00:00\<close> for \<^verbatim>\<open>timezone.utc\<close>.
\<close>

definition date_isoformat :: "int \<Rightarrow> int \<Rightarrow> int \<Rightarrow> string" where
  "date_isoformat y m d = pad4 y @ ''-'' @ pad2 m @ ''-'' @ pad2 d"

definition isoformat :: "timespec \<Rightarrow> datetime \<Rightarrow> string" where
  "isoformat ts dt =
     date_isoformat (year dt) (month dt) (day dt) @ ''T'' @
     pad2 (hour dt) @ '':'' @ pad2 (minute dt) @ '':'' @ pad2 (second dt) @
     (case ts of
        Milliseconds \<Rightarrow> ''.'' @ pad3 (microsecond dt div 1000)
      | Auto \<Rightarrow> (if microsecond dt = 0 then [] else ''.'' @ pad6 (microsecond dt))) @
     (case tz dt of None \<Rightarrow> [] | Some UTC \<Rightarrow> ''+00:00'')"

section \<open>The serializer\<close>

text \<open>
  \<^verbatim>\<open>json.dumps(obj)\<close> with no \<^verbatim>\<open>default\<close> hook: the encoder's own types are encoded,
  a list that contains itself raises \<^verbatim>\<open>ValueError\<close>, an object of any other class
  raises \<^verbatim>\<open>TypeError\<close>. A list or a mapping stops at its first failing element.
\<close>

definition type_name :: "pyobj \<Rightarrow> string" where
  "type_name obj =
     (case obj of
        PNone \<Rightarrow> ''NoneType'' | PBool _ \<Rightarrow> ''bool'' | PInt _ \<Rightarrow> ''int''
      | PFloat _ \<Rightarrow> ''float'' | PStr _ \<Rightarrow> ''str'' | PList _ \<Rightarrow> ''list''
      | PDict _ \<Rightarrow> ''dict'' | CyclicList \<Rightarrow> ''list''
      | FirestoreTimestamp _ _ \<Rightarrow> ''Timestamp'' | Sentinel _ \<Rightarrow> ''Sentinel''
      | DocumentReference _ \<Rightarrow> ''DocumentReference'' | GeoPoint _ _ \<Rightarrow> ''GeoPoint''
      | PyDate _ _ _ \<Rightarrow> ''date'' | PyDatetime _ \<Rightarrow> ''datetime''
      | Other c _ _ \<Rightarrow> c)"

definition not_serializable :: "pyobj \<Rightarrow> exn" where
  "not_serializable obj =
     Exn ''TypeError'' (''Object of type '' @ type_name obj @ '' is not JSON serializable'')"

definition circular :: exn where
  "circular = Exn ''ValueError'' ''Circular reference detected''"

fun json_dumps :: "pyobj \<Rightarrow> exn + json"
  and json_dumps_list :: "pyobj list \<Rightarrow> exn + json list"
  and json_dumps_items :: "(string \<times> pyobj) list \<Rightarrow> exn + (string \<times> json) list" where
  "json_dumps PNone = Inr JNull"
| "json_dumps (PBool b) = Inr (JBool b)"
| "json_dumps (PInt i) = Inr (JInt i)"
| "json_dumps (PFloat f) = Inr (JFloat f)"
| "json_dumps (PStr s) = Inr (JString s)"
| "json_dumps (PList xs) =
     (case json_dumps_list xs of Inl e \<Rightarrow> Inl e | Inr js \<Rightarrow> Inr (JArray js))"
| "json_dumps (PDict kvs) =
     (case json_dumps_items kvs of Inl e \<Rightarrow> Inl e | Inr js \<Rightarrow> Inr (JObject js))"
| "json_dumps CyclicList = Inl circular"
| "json_dumps (FirestoreTimestamp s n) = Inl (not_serializable (FirestoreTimestamp s n))"
| "json_dumps (Sentinel d) = Inl (not_serializable (Sentinel d))"
| "json_dumps (DocumentReference r) = Inl (not_serializable (DocumentReference r))"
| "json_dumps (GeoPoint la lo) = Inl (not_serializable (GeoPoint la lo))"
| "json_dumps (PyDate y m d) = Inl (not_serializable (PyDate y m d))"
| "json_dumps (PyDatetime dt) = Inl (not_serializable (PyDatetime dt))"
| "json_dumps (Other c s q) = Inl (not_serializable (Other c s q))"
| "json_dumps_list [] = Inr []"
| "json_dumps_list (x # xs) =
     (case json_dumps x of
        Inl e \<Rightarrow> Inl e
      | Inr j \<Rightarrow> (case json_dumps_list xs of Inl e \<Rightarrow> Inl e | Inr js \<Rightarrow> Inr (j # js)))"
| "json_dumps_items [] = Inr []"
| "json_dumps_items ((k, v) # kvs) =
     (case json_dumps v of
        Inl e \<Rightarrow> Inl e
      | Inr j \<Rightarrow> (case json_dumps_items kvs of Inl e \<Rightarrow> Inl e | Inr js \<Rightarrow> Inr ((k, j) # js)))"

text \<open>
  \<^verbatim>\<open>str(obj)\<close>, for the objects that reach the last rule of the serializer: an object
  of another class says itself what \<^verbatim>\<open>str\<close> gives or raises. For the encoder's own
  types, which reach \<^verbatim>\<open>str\<close> when a list or a mapping holds an object the encoder
  refuses, the text (Python's \<^verbatim>\<open>repr\<close> of the container) is abbreviated to the class
  name in angle brackets.
\<close>

definition py_str :: "pyobj \<Rightarrow> exn + string" where
  "py_str obj =
     (case obj of
        Other c s q \<Rightarrow> s
      | CyclicList \<Rightarrow> Inr ''[[...]]''
      | _ \<Rightarrow> Inr (''<'' @ type_name obj @ ''>''))"

text \<open>The tests of the serializer's rules, in the order of the source.\<close>

definition is_timestamp_class :: "pyobj \<Rightarrow> bool" where
  "is_timestamp_class obj =
     (case obj of FirestoreTimestamp _ _ \<Rightarrow> True | Sentinel _ \<Rightarrow> True | _ \<Rightarrow> False)"

definition has_ToDatetime :: "pyobj \<Rightarrow> bool" where
  "has_ToDatetime obj = (case obj of FirestoreTimestamp _ _ \<Rightarrow> True | _ \<Rightarrow> False)"

definition is_DocumentReference :: "pyobj \<Rightarrow> bool" where
  "is_DocumentReference obj = (case obj of DocumentReference _ \<Rightarrow> True | _ \<Rightarrow> False)"

definition is_GeoPoint :: "pyobj \<Rightarrow> bool" where
  "is_GeoPoint obj = (case obj of GeoPoint _ _ \<Rightarrow> True | _ \<Rightarrow> False)"

definition SERVER_TIMESTAMP :: pyobj where
  "SERVER_TIMESTAMP = Sentinel ''Value used to set a document field to the server timestamp.''"

definition eq_SERVER_TIMESTAMP :: "pyobj \<Rightarrow> bool" where
  "eq_SERVER_TIMESTAMP obj =
     (case obj of Other _ _ q \<Rightarrow> q | _ \<Rightarrow> obj = SERVER_TIMESTAMP)"

definition is_date :: "pyobj \<Rightarrow> bool" where
  "is_date obj = (case obj of PyDate _ _ _ \<Rightarrow> True | PyDatetime _ \<Rightarrow> True | _ \<Rightarrow> False)"

text \<open>
  \<^verbatim>\<open>json_serializer(obj)\<close>: the warnings it writes and the value it returns, or the
  exception that leaves it. In rule 1 an object with \<^verbatim>\<open>ToDatetime\<close> is converted and
  given the UTC time zone; the objects of the rule without \<^verbatim>\<open>ToDatetime\<close> are the
  \<open>Sentinel\<close>s, on which \<^verbatim>\<open>obj.seconds\<close> raises \<^verbatim>\<open>AttributeError\<close> before the
  floating-point sum \<^verbatim>\<open>obj.seconds + obj.nanos / 1e9\<close> is formed. The branches
  \<open>_ \<Rightarrow> ([], Inr obj)\<close> under a class test are not reached. In the last rule an
  exception of \<^verbatim>\<open>str(obj)\<close> is raised inside the \<^verbatim>\<open>except TypeError\<close> handler, where no
  other handler of the same \<^verbatim>\<open>try\<close> applies.
\<close>

definition json_serializer :: "pyobj \<Rightarrow> event list \<times> (exn + pyobj)" where
  "json_serializer obj =
     (if is_timestamp_class obj then
        (if has_ToDatetime obj then
           (case obj of
              FirestoreTimestamp s n \<Rightarrow>
                (case ToDatetime s n of
                   Inl e \<Rightarrow> ([], Inl e)
                 | Inr dt \<Rightarrow>
                     (let dt_utc = dt\<lparr>tz := Some UTC\<rparr>
                      in ([], Inr (PStr (isoformat Milliseconds dt_utc @ ''Z'')))))
            | _ \<Rightarrow> ([], Inr obj))
         else
           ([], Inl (Exn ''AttributeError''
                      (apostrophe @ type_name obj @ apostrophe @
                       '' object has no attribute '' @ apostrophe @ ''seconds'' @ apostrophe))))
      else if is_DocumentReference obj then
        (case obj of
           DocumentReference r \<Rightarrow> ([], Inr (PStr (''Reference(path='' @ apostrophe @ doc_path r @ apostrophe @ '')'')))
         | _ \<Rightarrow> ([], Inr obj))
      else if is_GeoPoint obj then
        (case obj of
           GeoPoint la lo \<Rightarrow>
             ([], Inr (PDict [(''latitude'', PFloat la), (''longitude'', PFloat lo)]))
         | _ \<Rightarrow> ([], Inr obj))
      else if eq_SERVER_TIMESTAMP obj then ([], Inr (PStr ''firestore.SERVER_TIMESTAMP''))
      else if is_date obj then
        (case obj of
           PyDate y m d \<Rightarrow> ([], Inr (PStr (date_isoformat y m d)))
         | PyDatetime dt \<Rightarrow> ([], Inr (PStr (isoformat Auto dt)))
         | _ \<Rightarrow> ([], Inr obj))
      else
        (case json_dumps obj of
           Inr j \<Rightarrow> ([], Inr obj)
         | Inl e \<Rightarrow>
             if is_TypeError e then
               (case py_str obj of Inl e' \<Rightarrow> ([], Inl e') | Inr s \<Rightarrow> ([], Inr (PStr s)))
             else
               ([SerializeWarning (type_name obj) e],
                Inr (PStr (''Unserializable('' @ type_name obj @ '')'')))))"

text \<open>
  \<^verbatim>\<open>json.dumps(doc_data, indent=2, default=json_serializer, ensure_ascii=False)\<close>: the
  encoder walks the value; on an object of a class it does not encode itself it calls
  the hook and encodes what the hook returns. A list that contains itself raises
  \<^verbatim>\<open>ValueError\<close> in the encoder, before any hook. The result is the warnings written
  while encoding and the encoded value, or the exception that ends the call.
  What \<open>json_serializer\<close> returns for an object of another class is a string or a
  mapping of two floats, which the encoder encodes with no further call of the hook
  (\<open>hook_result_is_plain\<close> below), so \<open>default_hook\<close> encodes it with \<open>json_dumps\<close>.
\<close>

definition default_hook :: "pyobj \<Rightarrow> event list \<times> (exn + json)" where
  "default_hook obj =
     (case json_serializer obj of
        (ws, Inl e) \<Rightarrow> (ws, Inl e)
      | (ws, Inr r) \<Rightarrow> (ws, json_dumps r))"

fun json_dumps_default :: "pyobj \<Rightarrow> event list \<times> (exn + json)"
  and json_dumps_default_list :: "pyobj list \<Rightarrow> event list \<times> (exn + json list)"
  and json_dumps_default_items ::
    "(string \<times> pyobj) list \<Rightarrow> event list \<times> (exn + (string \<times> json) list)" where
  "json_dumps_default PNone = ([], Inr JNull)"
| "json_dumps_default (PBool b) = ([], Inr (JBool b))"
| "json_dumps_default (PInt i) = ([], Inr (JInt i))"
| "json_dumps_default (PFloat f) = ([], Inr (JFloat f))"
| "json_dumps_default (PStr s) = ([], Inr (JString s))"
| "json_dumps_default (PList xs) =
     (case json_dumps_default_list xs of
        (ws, Inl e) \<Rightarrow> (ws, Inl e)
      | (ws, Inr js) \<Rightarrow> (ws, Inr (JArray js)))"
| "json_dumps_default (PDict kvs) =
     (case json_dumps_default_items kvs of
        (ws, Inl e) \<Rightarrow> (ws, Inl e)
      | (ws, Inr js) \<Rightarrow> (ws, Inr (JObject js)))"
| "json_dumps_default CyclicList = ([], Inl circular)"
| "json_dumps_default (FirestoreTimestamp s n) = default_hook (FirestoreTimestamp s n)"
| "json_dumps_default (Sentinel d) = default_hook (Sentinel d)"
| "json_dumps_default (DocumentReference r) = default_hook (DocumentReference r)"
| "json_dumps_default (GeoPoint la lo) = default_hook (GeoPoint la lo)"
| "json_dumps_default (PyDate y m d) = default_hook (PyDate y m d)"
| "json_dumps_default (PyDatetime dt) = default_hook (PyDatetime dt)"
| "json_dumps_default (Other c s q) = default_hook (Other c s q)"
| "json_dumps_default_list [] = ([], Inr [])"
| "json_dumps_default_list (x # xs) =
     (case json_dumps_default x of
        (ws, Inl e) \<Rightarrow> (ws, Inl e)
      | (ws, Inr j) \<Rightarrow>
          (case json_dumps_default_list xs of
             (ws', Inl e) \<Rightarrow> (ws @ ws', Inl e)
           | (ws', Inr js) \<Rightarrow> (ws @ ws', Inr (j # js))))"
| "json_dumps_default_items [] = ([], Inr [])"
| "json_dumps_default_items ((k, v) # kvs) =
     (case json_dumps_default v of
        (ws, Inl e) \<Rightarrow> (ws, Inl e)
      | (ws, Inr j) \<Rightarrow>
          (case json_dumps_default_items kvs of
             (ws', Inl e) \<Rightarrow> (ws @ ws', Inl e)
           | (ws', Inr js) \<Rightarrow> (ws @ ws', Inr ((k, j) # js))))"

section \<open>The store and the traversal\<close>

text \<open>
  The remote store, as the client library shows it: the documents a collection
  streams, in the store's order, with the error (if any) that the stream raises after
  them; the subcollections of a document, or the error of listing them; the root
  collections. References may repeat and the tree may be of any depth.
\<close>

record doc_snapshot =
  reference :: doc_ref
  to_dict :: pyobj

record store =
  documents :: "col_ref \<Rightarrow> doc_snapshot list \<times> exn option"
  collections :: "doc_ref \<Rightarrow> exn + col_ref list"
  root_collections :: "exn + col_ref list"

text \<open>
  \<^verbatim>\<open>query.stream()\<close>: a query limited to \<open>n\<close> ends after \<open>n\<close> documents, before an
  error that the store would raise later.
\<close>

definition stream :: "store \<Rightarrow> query \<Rightarrow> doc_snapshot list \<times> exn option" where
  "stream st q =
     (case query_limit q of
        None \<Rightarrow> documents st (query_col q)
      | Some n \<Rightarrow>
          (if n \<le> length (fst (documents st (query_col q)))
           then (take n (fst (documents st (query_col q))), None)
           else documents st (query_col q)))"

text \<open>
  \<^verbatim>\<open>dump_collection(col_ref, current_depth, max_depth, no_limit)\<close> with its two loops:
  \<open>dump_documents\<close> is the loop over \<^verbatim>\<open>docs_stream\<close> (it carries \<^verbatim>\<open>doc_count\<close> and
  ends with the count, or with the exception that leaves the loop), and
  \<open>dump_subcollections\<close> is the loop over \<^verbatim>\<open>sub_col_list\<close>. An exception raised in the
  \<^verbatim>\<open>try\<close> block reaches the handler at the end of \<open>dump_collection\<close>.
\<close>

function dump_collection :: "store \<Rightarrow> col_ref \<Rightarrow> int \<Rightarrow> int \<Rightarrow> bool \<Rightarrow> event list"
  and dump_documents ::
    "store \<Rightarrow> doc_snapshot list \<Rightarrow> int \<Rightarrow> int \<Rightarrow> bool \<Rightarrow> int \<Rightarrow> event list \<times> (exn + int)"
  and dump_subcollections :: "store \<Rightarrow> col_ref list \<Rightarrow> int \<Rightarrow> int \<Rightarrow> bool \<Rightarrow> event list" where
  "dump_collection st col_ref current_depth max_depth no_limit =
     (if current_depth > max_depth then
        [MaxDepthNotice current_depth max_depth (col_id col_ref)]
      else
        (let limit_count = 5;
             query = (if no_limit then Query col_ref None
                      else Query col_ref (Some limit_count));
             announce = (if no_limit then FetchingAll current_depth (col_id col_ref)
                         else FetchingUpTo current_depth limit_count (col_id col_ref));
             docs_stream = stream st query;
             body = dump_documents st (fst docs_stream) current_depth max_depth no_limit 0;
             outcome = (case snd body of
                          Inl e \<Rightarrow> Inl e
                        | Inr doc_count \<Rightarrow>
                            (case snd docs_stream of Some e \<Rightarrow> Inl e | None \<Rightarrow> Inr doc_count))
         in [SeparatorNL current_depth,
             ProcessingCollection current_depth (col_id col_ref),
             Separator current_depth,
             announce, Fetch query] @ fst body @
            (case outcome of
               Inl e \<Rightarrow> [WarningError (col_id col_ref), ErrorDetails current_depth e]
             | Inr doc_count \<Rightarrow>
                 (if doc_count = 0
                  then [EmptyCollection (current_depth + 1) (col_id col_ref)] else []))))"
| "dump_documents st [] current_depth max_depth no_limit doc_count = ([], Inr doc_count)"
| "dump_documents st (doc_snapshot # rest) current_depth max_depth no_limit doc_count =
     (let doc_ref = reference doc_snapshot;
          doc_data = to_dict doc_snapshot;
          header = DocumentHeader (current_depth + 1) (doc_id doc_ref);
          dumped = json_dumps_default doc_data
      in case snd dumped of
           Inl e \<Rightarrow> (header # fst dumped, Inl e)
         | Inr text \<Rightarrow>
             (case collections st doc_ref of
                Inl e \<Rightarrow>
                  (header # fst dumped @ [DocumentJson text, ListCollections doc_ref], Inl e)
              | Inr sub_col_list \<Rightarrow>
                  (let below =
                         (if sub_col_list \<noteq> [] then
                            CheckingSubcollections (current_depth + 1) (doc_id doc_ref) #
                            dump_subcollections st sub_col_list current_depth max_depth no_limit
                          else []);
                       rest_out =
                         dump_documents st rest current_depth max_depth no_limit (doc_count + 1)
                   in (header # fst dumped @ [DocumentJson text, ListCollections doc_ref] @
                       below @ fst rest_out,
                       snd rest_out))))"
| "dump_subcollections st [] current_depth max_depth no_limit = []"
| "dump_subcollections st (sub_col_ref # rest) current_depth max_depth no_limit =
     dump_collection st sub_col_ref (current_depth + 1) max_depth no_limit @
     dump_subcollections st rest current_depth max_depth no_limit"
  by pat_completeness auto

text \<open>
  Every chain of calls is finite: a call of \<open>dump_collection\<close> that enters a loop has
  \<open>current_depth \<le> max_depth\<close>, the loops call it at \<open>current_depth + 1\<close>, and each loop
  runs over a list.
\<close>

termination
  by (relation "measures
        [case_sum (\<lambda>(st, c, d, m, nl). nat (m + 1 - d))
           (case_sum (\<lambda>(st, ds, d, m, nl, cnt). nat (m - d)) (\<lambda>(st, ss, d, m, nl). nat (m - d))),
         case_sum (\<lambda>x. 0) (case_sum (\<lambda>x. 2) (\<lambda>x. Suc 0)),
         case_sum (\<lambda>x. 0)
           (case_sum (\<lambda>(st, ds, d, m, nl, cnt). length ds) (\<lambda>(st, ss, d, m, nl). length ss))]")
     auto

section \<open>The text of the output\<close>

text \<open>
  The line each event prints and the stream it goes to; the calls to the store print
  nothing. The layout of a document's JSON text (\<^verbatim>\<open>indent=2\<close>, \<^verbatim>\<open>ensure_ascii=False\<close>)
  is the parameter \<open>layout\<close>. Only the serializer's warning goes to \<^verbatim>\<open>sys.stderr\<close>.
\<close>

definition newline :: string where
  "newline = [CHR 0x0A]"

definition dashes :: string where
  "dashes = ''-----------------------------------------''"

definition render :: "(json \<Rightarrow> string) \<Rightarrow> event \<Rightarrow> (channel \<times> string) option" where
  "render layout ev =
     (case ev of
        SerializeWarning t e \<Rightarrow>
          Some (StandardError,
                ''Warning: Could not serialize object of type <class '' @ apostrophe @ t @
                apostrophe @ ''>: '' @ exn_msg e)
      | MaxDepthNotice d m c \<Rightarrow>
          Some (StandardOutput,
                indent d @ ''!!! Max recursion depth ('' @ str_int m @
                '') reached for collection: '' @ c @ ''. Stopping recursion here. !!!'')
      | SeparatorNL d \<Rightarrow> Some (StandardOutput, newline @ indent d @ dashes)
      | ProcessingCollection d c \<Rightarrow>
          Some (StandardOutput, indent d @ ''--- Processing Collection: '' @ c @ '' ---'')
      | Separator d \<Rightarrow> Some (StandardOutput, indent d @ dashes)
      | FetchingAll d c \<Rightarrow>
          Some (StandardOutput, indent d @ ''Fetching ALL documents from collection: '' @ c)
      | FetchingUpTo d n c \<Rightarrow>
          Some (StandardOutput,
                indent d @ ''Fetching up to '' @ str_int (int n) @
                '' documents from collection: '' @ c)
      | DocumentHeader d i \<Rightarrow>
          Some (StandardOutput, newline @ indent d @ ''--- Document: '' @ i @ '' ---'')
      | DocumentJson j \<Rightarrow> Some (StandardOutput, layout j)
      | CheckingSubcollections d i \<Rightarrow>
          Some (StandardOutput,
                indent d @ ''--- Checking subcollections for document '' @ i @ '' ---'')
      | EmptyCollection d c \<Rightarrow>
          Some (StandardOutput,
                indent d @ ''(Collection '' @ apostrophe @ c @ apostrophe @
                '' appears empty or has no documents directly within it)'')
      | WarningError c \<Rightarrow>
          Some (StandardOutput,
                newline @ ''!!! Warning: Error processing collection '' @ apostrophe @ c @
                apostrophe @ ''. Skipping collection. !!!'')
      | ErrorDetails d e \<Rightarrow> Some (StandardOutput, indent d @ ''Error details: '' @ exn_msg e)
      | Stdout s \<Rightarrow> Some (StandardOutput, s)
      | Fetch q \<Rightarrow> None
      | ListCollections r \<Rightarrow> None
      | ListRootCollections \<Rightarrow> None)"

section \<open>The entry point\<close>

text \<open>
  The parsed command line (\<^verbatim>\<open>argparse\<close> itself is not modelled): \<^verbatim>\<open>--project-id\<close> is
  \<open>None\<close> when it is not given, \<^verbatim>\<open>--max-depth\<close> is any integer, 10 by default.
\<close>

record args =
  key_file :: string
  project_id :: "string option"
  max_depth :: int
  no_limit :: bool

text \<open>
  What the entry point sees of the world around it: the file system, the JSON parser,
  the \<^verbatim>\<open>firebase_admin\<close> library and the stores behind it. \<open>credentials_Certificate\<close>
  is \<^verbatim>\<open>credentials.Certificate(key_data)\<close>; \<open>apps\<close> is the default app already
  registered in \<^verbatim>\<open>firebase_admin._apps\<close> (none in a fresh process);
  \<open>default_options\<close> are the options \<^verbatim>\<open>initialize_app\<close> reads from the environment
  when it is given none; \<open>environ_project\<close> is \<^verbatim>\<open>GOOGLE_CLOUD_PROJECT\<close>;
  \<open>database p\<close> is the store of the project \<open>p\<close>.
\<close>

record credential =
  cred_project_id :: "string option"

record app =
  app_credential :: credential
  app_options :: "(string \<times> string) list"

record env =
  path_exists :: "string \<Rightarrow> bool"
  open_read :: "string \<Rightarrow> exn + string"
  json_load :: "string \<Rightarrow> exn + pyobj"
  credentials_Certificate :: "pyobj \<Rightarrow> exn + credential"
  apps :: "app option"
  default_options :: "(string \<times> string) list"
  environ_project :: "string option"
  database :: "string \<Rightarrow> store"

text \<open>The truth value Python gives an optional string: \<^verbatim>\<open>None\<close> and \<^verbatim>\<open>''\<close> are false.\<close>

definition truthy :: "string option \<Rightarrow> bool" where
  "truthy x = (case x of None \<Rightarrow> False | Some s \<Rightarrow> s \<noteq> [])"

definition or_else :: "string option \<Rightarrow> string option \<Rightarrow> string option" where
  "or_else x y = (if truthy x then x else y)"

text \<open>
  \<^verbatim>\<open>firebase_admin.initialize_app(cred)\<close>, called with the credential alone, and the
  project an app belongs to (\<^verbatim>\<open>App.project_id\<close>): the \<^verbatim>\<open>projectId\<close> option, else the
  credential's project, else the environment's. \<^verbatim>\<open>firestore.client()\<close> raises
  \<^verbatim>\<open>ValueError\<close> for an app with no project.
\<close>

definition initialize_app :: "env \<Rightarrow> credential \<Rightarrow> app" where
  "initialize_app ev cred = \<lparr>app_credential = cred, app_options = default_options ev\<rparr>"

definition app_project_id :: "env \<Rightarrow> app \<Rightarrow> string option" where
  "app_project_id ev a =
     or_else (map_of (app_options a) ''projectId'')
       (or_else (cred_project_id (app_credential a)) (environ_project ev))"

definition project_id_required :: exn where
  "project_id_required =
     Exn ''ValueError''
       (''Project ID is required to access Firestore. Either set the projectId option, '' @
        ''or use service account credentials. Alternatively, set the '' @
        ''GOOGLE_CLOUD_PROJECT environment variable.'')"

definition firestore_client :: "env \<Rightarrow> app \<Rightarrow> exn + store" where
  "firestore_client ev a =
     (case app_project_id ev a of
        None \<Rightarrow> Inl project_id_required
      | Some p \<Rightarrow> if p = [] then Inl project_id_required
                  else Inr (database ev p))"

text \<open>
  The first \<^verbatim>\<open>try\<close> block of the entry point: the lines it prints, and the store it
  connects to with the project of the app, or the exception that ends it. The
  dictionary \<^verbatim>\<open>init_options\<close> is built and the override is announced, and
  \<^verbatim>\<open>initialize_app\<close> is called with \<^verbatim>\<open>cred\<close> only.
\<close>

definition initialize :: "env \<Rightarrow> args \<Rightarrow> event list \<times> (exn + store \<times> string)" where
  "initialize ev a =
     (let service_account_key_path = key_file a;
          project_id_override = project_id a;
          out0 = [Stdout (newline @ ''Attempting to load service account key from: '' @
                          service_account_key_path)]
      in case open_read ev service_account_key_path of
           Inl e \<Rightarrow> (out0, Inl e)
         | Inr f \<Rightarrow>
        (let out1 = out0 @ [Stdout ''Successfully opened key file'']
         in case json_load ev f of
              Inl e \<Rightarrow> (out1, Inl e)
            | Inr key_data \<Rightarrow>
        (let out2 = out1 @ [Stdout ''Successfully parsed key file JSON'',
                            Stdout ''Initializing credentials...'']
         in case credentials_Certificate ev key_data of
              Inl e \<Rightarrow> (out2, Inl e)
            | Inr cred \<Rightarrow>
        (let init_options =
               (if truthy project_id_override
                then [(''credential'', Inl cred), (''projectId'', Inr (the project_id_override))]
                else [(''credential'', Inl cred)]);
             out3 = out2 @ [Stdout ''Credentials initialized successfully''] @
               (if truthy project_id_override
                then [Stdout (''Using override project ID: '' @ the project_id_override)]
                else []);
             out4 = out3 @
               (case apps ev of
                  None \<Rightarrow> [Stdout ''Initializing new Firebase Admin app...'',
                            Stdout ''Firebase Admin app initialized successfully'']
                | Some existing \<Rightarrow> [Stdout ''Firebase Admin already initialized'']);
             the_app = (case apps ev of None \<Rightarrow> initialize_app ev cred | Some existing \<Rightarrow> existing)
         in case firestore_client ev the_app of
              Inl e \<Rightarrow> (out4, Inl e)
            | Inr db \<Rightarrow>
                (case app_project_id ev the_app of
                   None \<Rightarrow> (out4, Inl project_id_required)
                 | Some actual_project_id \<Rightarrow>
                     (out4 @ [Stdout (''--- Successfully initialized Firebase Admin SDK for project: '' @
                                      actual_project_id @ '' ---'')],
                      Inr (db, actual_project_id)))))))"

text \<open>
  The second \<^verbatim>\<open>try\<close> block: the root collections are listed and each is dumped from
  depth 0 (the default of \<^verbatim>\<open>current_depth\<close>), in the store's order.
\<close>

definition dump_top_level :: "store \<Rightarrow> string \<Rightarrow> args \<Rightarrow> event list \<times> int" where
  "dump_top_level db actual_project_id a =
     (let max_recursion_depth = max_depth a;
          out0 = [Stdout (newline @ ''Fetching top-level collections...''), ListRootCollections]
      in case root_collections db of
           Inl e \<Rightarrow>
             (out0 @ [Stdout (newline @ ''An unexpected error occurred during data fetching: '' @
                              exn_msg e)], 1)
         | Inr top_level_collections \<Rightarrow>
             (if top_level_collections = [] then
                (out0 @ [Stdout ''No top-level collections found in this database.'',
                         Stdout ''--- Firestore Data Dump Complete (No Data) ---''], 0)
              else
                (out0 @
                 [Stdout (''Found '' @ str_int (int (length top_level_collections)) @
                          '' top-level collections.''),
                  Stdout (newline @
                    ''Fetching data recursively (this may take time and incur read costs)...'')] @
                 concat (map (\<lambda>collection_ref.
                                dump_collection db collection_ref 0 max_recursion_depth (no_limit a))
                             top_level_collections) @
                 [Stdout (newline @ dashes),
                  Stdout (''--- End of Firestore Data Dump ('' @ actual_project_id @ '') ---'')],
                 0)))"


section \<open>Vocabulary of the properties\<close>

text \<open>The objects on which the encoder calls the hook.\<close>

definition needs_hook :: "pyobj \<Rightarrow> bool" where
  "needs_hook obj =
     (case obj of
        FirestoreTimestamp _ _ \<Rightarrow> True | Sentinel _ \<Rightarrow> True | DocumentReference _ \<Rightarrow> True
      | GeoPoint _ _ \<Rightarrow> True | PyDate _ _ _ \<Rightarrow> True | PyDatetime _ \<Rightarrow> True
      | Other _ _ _ \<Rightarrow> True | _ \<Rightarrow> False)"

text \<open>The objects that pass the five special rules of the serializer.\<close>

definition no_special_rule :: "pyobj \<Rightarrow> bool" where
  "no_special_rule obj =
     (\<not> is_timestamp_class obj \<and> \<not> is_DocumentReference obj \<and> \<not> is_GeoPoint obj \<and>
      \<not> eq_SERVER_TIMESTAMP obj \<and> \<not> is_date obj)"

text \<open>What \<^verbatim>\<open>return str(obj)\<close> gives: the string, or the exception of \<^verbatim>\<open>str\<close>.\<close>

definition return_str :: "pyobj \<Rightarrow> exn + pyobj" where
  "return_str obj = (case py_str obj of Inl e \<Rightarrow> Inl e | Inr s \<Rightarrow> Inr (PStr s))"

text \<open>Reading a trace: the headers of the documents printed at a depth, the queries
  sent to the store, the depths at which \<open>dump_collection\<close> was entered (each call
  prints the notice or the collection's name), and the events that fetch or show
  content.\<close>

definition is_document_header :: "int \<Rightarrow> event \<Rightarrow> bool" where
  "is_document_header d ev = (case ev of DocumentHeader k i \<Rightarrow> k = d | _ \<Rightarrow> False)"

fun fetched :: "event list \<Rightarrow> query list" where
  "fetched [] = []"
| "fetched (Fetch q # evs) = q # fetched evs"
| "fetched (ev # evs) = fetched evs"

fun call_depths :: "event list \<Rightarrow> int list" where
  "call_depths [] = []"
| "call_depths (MaxDepthNotice d m c # evs) = d # call_depths evs"
| "call_depths (ProcessingCollection d c # evs) = d # call_depths evs"
| "call_depths (ev # evs) = call_depths evs"

definition is_content :: "event \<Rightarrow> bool" where
  "is_content ev =
     (case ev of
        Fetch _ \<Rightarrow> True | ListCollections _ \<Rightarrow> True | DocumentHeader _ _ \<Rightarrow> True
      | DocumentJson _ \<Rightarrow> True | _ \<Rightarrow> False)"

text \<open>
  What holds of every event of a traversal that runs with the settings \<open>nl\<close> and \<open>m\<close>:
  a call of \<open>dump_collection\<close> is at a depth from \<open>lo\<close> to \<open>max lo (m + 1)\<close>, a
  document is printed at depth \<open>dh\<close> or deeper, and a query carries the limit 5
  exactly when \<open>nl\<close> is false.
\<close>

definition trace_inv :: "bool \<Rightarrow> int \<Rightarrow> int \<Rightarrow> int \<Rightarrow> event \<Rightarrow> bool" where
  "trace_inv nl m lo dh ev =
     (case ev of
        MaxDepthNotice k _ _ \<Rightarrow> lo \<le> k \<and> k \<le> max lo (m + 1)
      | ProcessingCollection k _ \<Rightarrow> lo \<le> k \<and> k \<le> max lo (m + 1)
      | DocumentHeader k _ \<Rightarrow> dh \<le> k
      | Fetch q \<Rightarrow> query_limit q = (if nl then None else Some 5)
      | _ \<Rightarrow> True)"

section \<open>Example stores and runs\<close>

definition users :: col_ref where
  "users = ColRef ''users'' ''users''"

definition broken :: col_ref where
  "broken = ColRef ''broken'' ''users/alice/broken''"

definition posts :: col_ref where
  "posts = ColRef ''posts'' ''users/alice/posts''"

definition logs :: col_ref where
  "logs = ColRef ''logs'' ''logs''"

definition archive :: col_ref where
  "archive = ColRef ''archive'' ''archive''"

definition unavailable :: exn where
  "unavailable = Exn ''ServiceUnavailable'' ''503 backend unavailable''"

definition boom :: exn where
  "boom = Exn ''RuntimeError'' ''boom''"

definition user_doc :: "string \<Rightarrow> doc_snapshot" where
  "user_doc n = \<lparr>reference = DocRef n (''users/'' @ n), to_dict = PDict [(''name'', PStr n)]\<rparr>"

definition post1 :: doc_snapshot where
  "post1 = \<lparr>reference = DocRef ''p1'' ''users/alice/posts/p1'',
            to_dict = PDict [(''title'', PStr ''hello''), (''author'', DocumentReference (DocRef ''alice'' ''users/alice''))]\<rparr>"

definition log1 :: doc_snapshot where
  "log1 = \<lparr>reference = DocRef ''l1'' ''logs/l1'',
           to_dict = PDict [(''payload'', Other ''Weird'' (Inl boom) False), (''level'', PInt 3)]\<rparr>"

definition log2 :: doc_snapshot where
  "log2 = \<lparr>reference = DocRef ''l2'' ''logs/l2'', to_dict = PDict [(''level'', PInt 1)]\<rparr>"

text \<open>
  A store with seven users; the first has a subcollection whose fetch fails, followed
  by one that works; \<open>logs\<close> holds a document with a value whose \<^verbatim>\<open>str\<close> raises;
  \<open>archive\<close> is empty.
\<close>

definition demo_store :: store where
  "demo_store =
     \<lparr>documents = (\<lambda>c.
        if c = users then
          (map user_doc [''alice'', ''bob'', ''carol'', ''dave'', ''erin'', ''frank'', ''grace''], None)
        else if c = broken then ([], Some unavailable)
        else if c = posts then ([post1], None)
        else if c = logs then ([log1, log2], None)
        else ([], None)),
      collections = (\<lambda>d. if d = DocRef ''alice'' ''users/alice'' then Inr [broken, posts] else Inr []),
      root_collections = Inr [users, logs, archive]\<rparr>"

text \<open>
  A store with one collection of four documents: a plain one, one with a reference
  to another document, one with a value whose \<^verbatim>\<open>str\<close> raises, and one more.
\<close>

definition audit :: col_ref where
  "audit = ColRef ''audit'' ''audit''"

definition audit1 :: doc_snapshot where
  "audit1 = \<lparr>reference = DocRef ''a1'' ''audit/a1'', to_dict = PDict [(''level'', PInt 1)]\<rparr>"

definition audit2 :: doc_snapshot where
  "audit2 = \<lparr>reference = DocRef ''a2'' ''audit/a2'',
              to_dict = PDict [(''level'', PInt 2),
                               (''who'', DocumentReference (DocRef ''alice'' ''users/alice'')),
                               (''ok'', PBool True)]\<rparr>"

definition audit3 :: doc_snapshot where
  "audit3 = \<lparr>reference = DocRef ''a3'' ''audit/a3'',
              to_dict = PDict [(''level'', PInt 3), (''payload'', Other ''Weird'' (Inl boom) False),
                               (''ok'', PBool False)]\<rparr>"

definition audit4 :: doc_snapshot where
  "audit4 = \<lparr>reference = DocRef ''a4'' ''audit/a4'', to_dict = PDict [(''level'', PInt 4)]\<rparr>"

definition audit_store :: store where
  "audit_store =
     \<lparr>documents = (\<lambda>c. if c = audit then ([audit1, audit2, audit3, audit4], None) else ([], None)),
      collections = (\<lambda>d. Inr []),
      root_collections = Inr [audit]\<rparr>"

text \<open>A store of unbounded depth: every collection holds one document, and every
  document one subcollection.\<close>

definition deep_store :: store where
  "deep_store =
     \<lparr>documents = (\<lambda>c. ([\<lparr>reference = DocRef ''d'' (col_path c @ ''/d''), to_dict = PDict []\<rparr>], None)),
      collections = (\<lambda>d. Inr [ColRef ''sub'' (doc_path d @ ''/sub'')]),
      root_collections = Inr [ColRef ''sub'' ''sub'']\<rparr>"

text \<open>A fresh process whose key file belongs to the project \<open>proj-a\<close>.\<close>

definition demo_env :: env where
  "demo_env =
     \<lparr>path_exists = (\<lambda>p. p = ''key.json''),
      open_read = (\<lambda>p. Inr ''{}''),
      json_load = (\<lambda>s. Inr (PDict [(''type'', PStr ''service_account''),
                                    (''project_id'', PStr ''proj-a'')])),
      credentials_Certificate = (\<lambda>k. Inr \<lparr>cred_project_id = Some ''proj-a''\<rparr>),
      apps = None,
      default_options = [],
      environ_project = None,
      database = (\<lambda>p. if p = ''proj-a'' then demo_store else deep_store)\<rparr>"

definition demo_args :: "string option \<Rightarrow> int \<Rightarrow> args" where
  "demo_args p m = \<lparr>key_file = ''key.json'', project_id = p, max_depth = m, no_limit = False\<rparr>"

section \<open>Properties\<close>

subsection \<open>Auxiliary facts\<close>

lemma not_serializable_TypeError [simp]: "is_TypeError (not_serializable obj)"
  by (simp add: is_TypeError_def not_serializable_def)

lemma hook_writes_no_warning: "needs_hook obj \<Longrightarrow> fst (json_serializer obj) = []"
  by (cases obj)
     (auto simp: needs_hook_def json_serializer_def is_timestamp_class_def has_ToDatetime_def is_DocumentReference_def
        is_GeoPoint_def is_date_def Let_def split: sum.splits prod.splits)

lemma default_hook_no_warning: "needs_hook obj \<Longrightarrow> fst (default_hook obj) = []"
  using hook_writes_no_warning [of obj]
  by (auto simp: default_hook_def split: prod.splits sum.splits)

lemma encoder_writes_no_warning:
  "fst (json_dumps_default v) = []"
  "fst (json_dumps_default_list vs) = []"
  "fst (json_dumps_default_items kvs) = []"
  by (induction v and vs and kvs rule: json_dumps_default_json_dumps_default_list_json_dumps_default_items.induct)
     (auto simp: default_hook_no_warning needs_hook_def split: prod.splits sum.splits)

lemma dump_documents_Cons:
  "dump_documents st (s # rest) d m nl k =
     (case snd (json_dumps_default (to_dict s)) of
        Inl e \<Rightarrow> ([DocumentHeader (d + 1) (doc_id (reference s))], Inl e)
      | Inr text \<Rightarrow>
          (case collections st (reference s) of
             Inl e \<Rightarrow>
               ([DocumentHeader (d + 1) (doc_id (reference s)), DocumentJson text,
                 ListCollections (reference s)], Inl e)
           | Inr subs \<Rightarrow>
               (DocumentHeader (d + 1) (doc_id (reference s)) # DocumentJson text #
                ListCollections (reference s) #
                (if subs \<noteq> [] then
                   CheckingSubcollections (d + 1) (doc_id (reference s)) #
                   dump_subcollections st subs d m nl
                 else []) @
                fst (dump_documents st rest d m nl (k + 1)),
                snd (dump_documents st rest d m nl (k + 1)))))"
  by (simp add: Let_def encoder_writes_no_warning split: sum.splits)

lemma dump_collection_within:
  "\<not> m < d \<Longrightarrow>
   dump_collection st c d m nl =
     [SeparatorNL d, ProcessingCollection d (col_id c), Separator d,
      (if nl then FetchingAll d (col_id c) else FetchingUpTo d 5 (col_id c)),
      Fetch (Query c (if nl then None else Some 5))] @
     fst (dump_documents st (fst (stream st (Query c (if nl then None else Some 5)))) d m nl 0) @
     (case snd (dump_documents st (fst (stream st (Query c (if nl then None else Some 5)))) d m nl 0) of
        Inl e \<Rightarrow> [WarningError (col_id c), ErrorDetails d e]
      | Inr k \<Rightarrow>
          (case snd (stream st (Query c (if nl then None else Some 5))) of
             Some e \<Rightarrow> [WarningError (col_id c), ErrorDetails d e]
           | None \<Rightarrow> if k = 0 then [EmptyCollection (d + 1) (col_id c)] else []))"
  by (simp add: Let_def split: sum.splits option.splits)

declare dump_collection.simps [simp del]

declare dump_documents.simps(2) [simp del]

lemma dump_collection_beyond:
  "m < d \<Longrightarrow> dump_collection st c d m nl = [MaxDepthNotice d m (col_id c)]"
  by (simp add: dump_collection.simps)

lemma fetched_append: "fetched (xs @ ys) = fetched xs @ fetched ys"
  by (induction xs rule: fetched.induct) auto

lemma trace_inv_mono:
  "trace_inv nl m lo dh ev \<Longrightarrow> lo' \<le> lo \<Longrightarrow> lo \<le> m + 1 \<Longrightarrow> dh' \<le> dh \<Longrightarrow> trace_inv nl m lo' dh' ev"
  by (cases ev) (auto simp: trace_inv_def)

lemma trace_inv_simps [simp]:
  "trace_inv nl m lo dh (MaxDepthNotice k c1 c2) = (lo \<le> k \<and> k \<le> max lo (m + 1))"
  "trace_inv nl m lo dh (ProcessingCollection k c) = (lo \<le> k \<and> k \<le> max lo (m + 1))"
  "trace_inv nl m lo dh (DocumentHeader k i) = (dh \<le> k)"
  "trace_inv nl m lo dh (Fetch q) = (query_limit q = (if nl then None else Some 5))"
  "trace_inv nl m lo dh (SerializeWarning t e)"
  "trace_inv nl m lo dh (SeparatorNL k)"
  "trace_inv nl m lo dh (Separator k)"
  "trace_inv nl m lo dh (FetchingAll k c)"
  "trace_inv nl m lo dh (FetchingUpTo k n c)"
  "trace_inv nl m lo dh (DocumentJson j)"
  "trace_inv nl m lo dh (CheckingSubcollections k i)"
  "trace_inv nl m lo dh (EmptyCollection k c)"
  "trace_inv nl m lo dh (WarningError c)"
  "trace_inv nl m lo dh (ErrorDetails k e)"
  "trace_inv nl m lo dh (Stdout s)"
  "trace_inv nl m lo dh (ListCollections r)"
  "trace_inv nl m lo dh ListRootCollections"
  by (simp_all add: trace_inv_def)

lemma trace_inv_weaken:
  "trace_inv nl m lo dh ev \<Longrightarrow> dh' \<le> dh \<Longrightarrow> trace_inv nl m lo dh' ev"
  by (cases ev) (auto simp: trace_inv_def)

lemma trace_inv_all:
  "\<forall>ev \<in> set (dump_collection st c d m nl). trace_inv nl m d (d + 1) ev"
  "\<forall>ev \<in> set (fst (dump_documents st ds d m nl cnt)). trace_inv nl m (d + 1) (d + 1) ev"
  "\<forall>ev \<in> set (dump_subcollections st ss d m nl). trace_inv nl m (d + 1) (d + 2) ev"
proof (induction st c d m nl and st ds d m nl cnt and st ss d m nl
       rule: dump_collection_dump_documents_dump_subcollections.induct)
  case (1 st c d m nl)
  show ?case
  proof (cases "m < d")
    case True
    then show ?thesis by (simp add: dump_collection_beyond)
  next
    case False
    let ?q = "Query c (if nl then None else Some 5)"
    let ?body = "dump_documents st (fst (stream st ?q)) d m nl 0"
    have IH: "\<forall>ev \<in> set (fst ?body). trace_inv nl m (d + 1) (d + 1) ev"
      using 1 [OF False refl refl refl refl] by (cases nl) simp_all
    have body: "\<forall>ev \<in> set (fst ?body). trace_inv nl m d (d + 1) ev"
    proof
      fix ev
      assume "ev \<in> set (fst ?body)"
      with IH have "trace_inv nl m (d + 1) (d + 1) ev" by blast
      then show "trace_inv nl m d (d + 1) ev"
        using False trace_inv_mono [of nl m "d + 1" "d + 1" ev d "d + 1"] by simp
    qed
    have tail: "\<forall>ev \<in> set (case snd ?body of
                 Inl e \<Rightarrow> [WarningError (col_id c), ErrorDetails d e]
               | Inr k \<Rightarrow> (case snd (stream st ?q) of
                    Some e \<Rightarrow> [WarningError (col_id c), ErrorDetails d e]
                  | None \<Rightarrow> if k = 0 then [EmptyCollection (d + 1) (col_id c)] else [])).
               trace_inv nl m d (d + 1) ev"
      by (simp split: sum.splits option.splits)
    have head: "\<forall>ev \<in> set [SeparatorNL d, ProcessingCollection d (col_id c), Separator d,
        (if nl then FetchingAll d (col_id c) else FetchingUpTo d 5 (col_id c)), Fetch ?q].
        trace_inv nl m d (d + 1) ev"
      by simp
    show ?thesis
      unfolding dump_collection_within [OF False] set_append
      using head body tail by blast
  qed
next
  case (2 st d m nl cnt)
  show ?case by simp
next
  case (3 st s rest d m nl cnt)
  show ?case
  proof (cases "snd (json_dumps_default (to_dict s))")
    case (Inl e)
    then show ?thesis by (simp add: dump_documents_Cons)
  next
    case (Inr j)
    note enc = this
    show ?thesis
    proof (cases "collections st (reference s)")
      case (Inl e)
      with enc show ?thesis by (simp add: dump_documents_Cons)
    next
      case (Inr subs)
      have rest: "\<forall>ev \<in> set (fst (dump_documents st rest d m nl (cnt + 1))).
                    trace_inv nl m (d + 1) (d + 1) ev"
        using 3(2) [OF refl refl refl refl enc Inr refl] .
      have below: "subs \<noteq> [] \<Longrightarrow>
          \<forall>ev \<in> set (dump_subcollections st subs d m nl). trace_inv nl m (d + 1) (d + 1) ev"
      proof -
        assume ne: "subs \<noteq> []"
        have "\<forall>ev \<in> set (dump_subcollections st subs d m nl). trace_inv nl m (d + 1) (d + 2) ev"
          using 3(1) [OF refl refl refl refl enc Inr ne] .
        then show ?thesis
          using trace_inv_weaken [of nl m "d + 1" "d + 2" _ "d + 1"] by simp
      qed
      show ?thesis
        using enc Inr rest below
        by (auto simp: dump_documents_Cons)
    qed
  qed
next
  case (4 st d m nl)
  show ?case by simp
next
  case (5 st sub rest d m nl)
  have "\<forall>ev \<in> set (dump_collection st sub (d + 1) m nl). trace_inv nl m (d + 1) (d + 1 + 1) ev"
    using 5(1) .
  moreover have "d + 1 + 1 = d + 2" by simp
  ultimately show ?case using 5(2) by auto
qed

lemma timestamp_always_keeps_offset:
  "json_serializer (FirestoreTimestamp s n) = (ws, Inr r) \<Longrightarrow> \<exists>t. r = PStr (t @ ''+00:00Z'')"
  by (auto simp: json_serializer_def is_timestamp_class_def has_ToDatetime_def isoformat_def
        split: sum.splits)

lemma initialize_ignores_override:
  "snd (initialize ev (a\<lparr>project_id := p\<rparr>)) = snd (initialize ev a)"
  by (simp add: initialize_def Let_def split: sum.splits option.splits)


lemma is_content_simps [simp]:
  "is_content (Fetch q)" "is_content (ListCollections r)"
  "is_content (DocumentHeader k i)" "is_content (DocumentJson j)"
  "\<not> is_content (Stdout s)" "\<not> is_content ListRootCollections"
  "\<not> is_content (MaxDepthNotice k m c)"
  by (simp_all add: is_content_def)




lemma fetched_set: "q \<in> set (fetched evs) \<longleftrightarrow> Fetch q \<in> set evs"
  by (induction evs rule: fetched.induct) auto

lemma stream_limit: "length (fst (stream st (Query c (Some n)))) \<le> n"
  by (simp add: stream_def)

lemma is_document_header_simps [simp]:
  "is_document_header d (DocumentHeader k i) = (k = d)"
  "\<not> is_document_header d (SerializeWarning t e)"
  "\<not> is_document_header d (MaxDepthNotice k m c)"
  "\<not> is_document_header d (SeparatorNL k)"
  "\<not> is_document_header d (ProcessingCollection k c)"
  "\<not> is_document_header d (Separator k)"
  "\<not> is_document_header d (FetchingAll k c)"
  "\<not> is_document_header d (FetchingUpTo k n c)"
  "\<not> is_document_header d (DocumentJson j)"
  "\<not> is_document_header d (CheckingSubcollections k i)"
  "\<not> is_document_header d (EmptyCollection k c)"
  "\<not> is_document_header d (WarningError c)"
  "\<not> is_document_header d (ErrorDetails k e)"
  "\<not> is_document_header d (Stdout s)"
  "\<not> is_document_header d (Fetch q)"
  "\<not> is_document_header d (ListCollections r)"
  "\<not> is_document_header d ListRootCollections"
  by (simp_all add: is_document_header_def)

lemma no_headers_below:
  "filter (is_document_header (d + 1)) (dump_subcollections st ss d m nl) = []"
proof -
  have "\<forall>ev \<in> set (dump_subcollections st ss d m nl). \<not> is_document_header (d + 1) ev"
  proof
    fix ev
    assume "ev \<in> set (dump_subcollections st ss d m nl)"
    with trace_inv_all(3) [of st ss d m nl] have "trace_inv nl m (d + 1) (d + 2) ev"
      by blast
    then show "\<not> is_document_header (d + 1) ev"
      by (cases ev) simp_all
  qed
  then show ?thesis by (simp add: filter_empty_conv)
qed

lemma headers_of_documents:
  "length (filter (is_document_header (d + 1)) (fst (dump_documents st ds d m nl k))) \<le> length ds"
proof (induction ds arbitrary: k)
  case Nil
  show ?case by simp
next
  case (Cons s rest)
  from Cons [of "k + 1"] show ?case
    by (simp add: dump_documents_Cons no_headers_below split: sum.splits)
qed

lemma headers_of_collection:
  "length (filter (is_document_header (d + 1)) (dump_collection st c d m nl))
     \<le> length (fst (stream st (Query c (if nl then None else Some 5))))"
proof (cases "m < d")
  case True
  then show ?thesis by (simp add: dump_collection_beyond)
next
  case False
  have "filter (is_document_header (d + 1)) (dump_collection st c d m nl) =
        filter (is_document_header (d + 1))
          (fst (dump_documents st (fst (stream st (Query c (if nl then None else Some 5)))) d m nl 0))"
    by (simp add: dump_collection_within [OF False] split: sum.splits option.splits)
  then show ?thesis by (simp add: headers_of_documents)
qed

lemma fetched_limits:
  "list_all (\<lambda>q. query_limit q = (if nl then None else Some 5)) (fetched (dump_collection st c d m nl))"
proof -
  have "\<forall>q \<in> set (fetched (dump_collection st c d m nl)). query_limit q = (if nl then None else Some 5)"
  proof
    fix q
    assume "q \<in> set (fetched (dump_collection st c d m nl))"
    then have "Fetch q \<in> set (dump_collection st c d m nl)" by (simp add: fetched_set)
    with trace_inv_all(1) [of st c d m nl] have "trace_inv nl m d (d + 1) (Fetch q)" by blast
    then show "query_limit q = (if nl then None else Some 5)" by simp
  qed
  then show ?thesis by (simp add: list_all_iff)
qed

lemmas demo_defs = demo_store_def users_def broken_def posts_def logs_def archive_def
  user_doc_def post1_def log1_def log2_def unavailable_def boom_def stream_def

lemmas serializer_defs = default_hook_def json_serializer_def is_timestamp_class_def has_ToDatetime_def
  is_DocumentReference_def is_GeoPoint_def eq_SERVER_TIMESTAMP_def is_date_def
  SERVER_TIMESTAMP_def py_str_def

lemma users_run:
  "dump_collection demo_store users 0 10 False =
     [SeparatorNL 0, ProcessingCollection 0 ''users'', Separator 0, FetchingUpTo 0 5 ''users'',
      Fetch (Query users (Some 5)),
      DocumentHeader 1 ''alice'', DocumentJson (JObject [(''name'', JString ''alice'')]),
      ListCollections (DocRef ''alice'' ''users/alice''), CheckingSubcollections 1 ''alice''] @
     dump_collection demo_store broken 1 10 False @
     dump_collection demo_store posts 1 10 False @
     [DocumentHeader 1 ''bob'', DocumentJson (JObject [(''name'', JString ''bob'')]),
      ListCollections (DocRef ''bob'' ''users/bob''),
      DocumentHeader 1 ''carol'', DocumentJson (JObject [(''name'', JString ''carol'')]),
      ListCollections (DocRef ''carol'' ''users/carol''),
      DocumentHeader 1 ''dave'', DocumentJson (JObject [(''name'', JString ''dave'')]),
      ListCollections (DocRef ''dave'' ''users/dave''),
      DocumentHeader 1 ''erin'', DocumentJson (JObject [(''name'', JString ''erin'')]),
      ListCollections (DocRef ''erin'' ''users/erin'')]"
  by (simp add: dump_collection_within dump_documents_Cons demo_defs)

lemma broken_run:
  "dump_collection demo_store broken 1 10 False =
     [SeparatorNL 1, ProcessingCollection 1 ''broken'', Separator 1, FetchingUpTo 1 5 ''broken'',
      Fetch (Query broken (Some 5)), WarningError ''broken'', ErrorDetails 1 unavailable]"
  by (simp add: dump_collection_within demo_defs)

lemma posts_run:
  "dump_collection demo_store posts 1 10 False =
     [SeparatorNL 1, ProcessingCollection 1 ''posts'', Separator 1, FetchingUpTo 1 5 ''posts'',
      Fetch (Query posts (Some 5)), DocumentHeader 2 ''p1'',
      DocumentJson (JObject [(''title'', JString ''hello''),
        (''author'', JString (''Reference(path='' @ apostrophe @ ''users/alice'' @ apostrophe @ '')''))]),
      ListCollections (DocRef ''p1'' ''users/alice/posts/p1'')]"
  by (simp add: dump_collection_within dump_documents_Cons demo_defs serializer_defs)

lemma call_depths_set:
  "k \<in> set (call_depths evs) \<Longrightarrow>
   (\<exists>m c. MaxDepthNotice k m c \<in> set evs) \<or> (\<exists>c. ProcessingCollection k c \<in> set evs)"
  by (induction evs rule: call_depths.induct) auto

lemma call_depths_bounded:
  "list_all (\<lambda>k. d \<le> k \<and> k \<le> max d (m + 1)) (call_depths (dump_collection st c d m nl))"
proof -
  have "\<forall>k \<in> set (call_depths (dump_collection st c d m nl)). d \<le> k \<and> k \<le> max d (m + 1)"
  proof
    fix k
    assume "k \<in> set (call_depths (dump_collection st c d m nl))"
    then consider m' c' where "MaxDepthNotice k m' c' \<in> set (dump_collection st c d m nl)"
      | c' where "ProcessingCollection k c' \<in> set (dump_collection st c d m nl)"
      using call_depths_set by blast
    then show "d \<le> k \<and> k \<le> max d (m + 1)"
    proof cases
      case 1
      with trace_inv_all(1) [of st c d m nl]
      have "trace_inv nl m d (d + 1) (MaxDepthNotice k m' c')" by blast
      then show ?thesis by simp
    next
      case 2
      with trace_inv_all(1) [of st c d m nl]
      have "trace_inv nl m d (d + 1) (ProcessingCollection k c')" by blast
      then show ?thesis by simp
    qed
  qed
  then show ?thesis by (simp add: list_all_iff)
qed

lemma dump_subcollections_append:
  "dump_subcollections st (xs @ ys) d m nl =
   dump_subcollections st xs d m nl @ dump_subcollections st ys d m nl"
  by (induction xs) simp_all

lemma hook_is_called: "needs_hook v \<Longrightarrow> json_dumps_default v = default_hook v"
  by (cases v) (simp_all add: needs_hook_def)

lemma hook_result_is_plain:
  "needs_hook v \<Longrightarrow> json_serializer v = (ws, Inr r) \<Longrightarrow>
   ws = [] \<and> json_dumps_default r = ([], json_dumps r)"
  by (cases v)
     (auto simp: needs_hook_def json_serializer_def is_timestamp_class_def has_ToDatetime_def is_DocumentReference_def
        is_GeoPoint_def is_date_def Let_def split: sum.splits if_splits)

lemma items_replace:
  "json_dumps_default v = json_dumps_default r \<Longrightarrow>
   json_dumps_default_items (kvs1 @ (k, v) # kvs2) = json_dumps_default_items (kvs1 @ (k, r) # kvs2)"
  by (induction kvs1) auto

lemma items_fail:
  "snd (json_dumps_default_items kvs1) = Inr js \<Longrightarrow> snd (json_dumps_default v) = Inl e \<Longrightarrow>
   snd (json_dumps_default_items (kvs1 @ (k, v) # kvs2)) = Inl e"
  by (induction kvs1 arbitrary: js) (auto split: prod.splits sum.splits)

lemma dump_documents_count:
  "snd (dump_documents st ds d m nl cnt) = Inr k \<Longrightarrow> k = cnt + int (length ds)"
proof (induction ds arbitrary: cnt)
  case Nil
  then show ?case by simp
next
  case (Cons s rest)
  from Cons.prems have "snd (dump_documents st rest d m nl (cnt + 1)) = Inr k"
    by (simp add: dump_documents_Cons split: sum.splits)
  from Cons.IH [OF this] show ?case by simp
qed

lemma dump_documents_append:
  "snd (dump_documents st pre d m nl cnt) = Inr n \<Longrightarrow>
   dump_documents st (pre @ xs) d m nl cnt =
     (fst (dump_documents st pre d m nl cnt) @ fst (dump_documents st xs d m nl n),
      snd (dump_documents st xs d m nl n))"
proof (induction pre arbitrary: cnt)
  case Nil
  then show ?case by simp
next
  case (Cons s rest)
  from Cons.prems have body: "snd (dump_documents st rest d m nl (cnt + 1)) = Inr n"
    by (simp add: dump_documents_Cons split: sum.splits)
  from Cons.prems Cons.IH [OF body] show ?case
    by (simp add: dump_documents_Cons split: sum.splits)
qed

lemma hook_result_encodes:
  "needs_hook v \<Longrightarrow> json_serializer v = (ws, Inr r) \<Longrightarrow> \<exists>jr. json_dumps r = Inr jr"
  by (cases v)
     (auto simp: needs_hook_def json_serializer_def is_timestamp_class_def has_ToDatetime_def
        is_DocumentReference_def is_GeoPoint_def is_date_def Let_def split: sum.splits if_splits)

lemma items_encode:
  "snd (json_dumps_default_items kvs1) = Inr js1 \<Longrightarrow> json_dumps_default v = ([], Inr jv) \<Longrightarrow>
   snd (json_dumps_default_items kvs2) = Inr js2 \<Longrightarrow>
   json_dumps_default_items (kvs1 @ (k, v) # kvs2) = ([], Inr (js1 @ (k, jv) # js2))"
proof (induction kvs1 arbitrary: js1)
  case Nil
  have "fst (json_dumps_default_items kvs2) = []" by (rule encoder_writes_no_warning)
  with Nil show ?case by (cases "json_dumps_default_items kvs2") simp
next
  case (Cons kv kvs1)
  obtain k' v' where kv: "kv = (k', v')" by (cases kv)
  have w: "fst (json_dumps_default v') = []" by (rule encoder_writes_no_warning)
  from Cons.prems(1) kv obtain j' js' where
    first: "snd (json_dumps_default v') = Inr j'" and
    others: "snd (json_dumps_default_items kvs1) = Inr js'" and
    js1: "js1 = (k', j') # js'"
    by (auto split: prod.splits sum.splits)
  from w first have enc: "json_dumps_default v' = ([], Inr j')"
    by (cases "json_dumps_default v'") simp
  from Cons.IH [OF others Cons.prems(2) Cons.prems(3)] enc kv js1 show ?case
    by simp
qed

subsection \<open>The claims\<close>

text \<open>
  Claim C1. A timestamp with seconds \<open>S\<close> and nanos \<open>N\<close> should be rendered as the UTC
  ISO-8601 text of that instant, cut to milliseconds, ending in \<open>Z\<close>, as in
  \<^verbatim>\<open>2024-03-01T12:00:00.000Z\<close>. The serializer gives the datetime the UTC zone before
  it calls \<^verbatim>\<open>isoformat\<close>, which then appends the offset \<^verbatim>\<open>+00:00\<close>, and the \<open>Z\<close>
  is added after it: for \<open>S = 1709294400\<close>, \<open>N = 0\<close> the text is
  \<^verbatim>\<open>2024-03-01T12:00:00.000+00:00Z\<close>.
\<close>

theorem timestamp_rendering_keeps_offset:
  "json_serializer (FirestoreTimestamp 1709294400 0) =
     ([], Inr (PStr ''2024-03-01T12:00:00.000+00:00Z'')) \<and>
   json_serializer (FirestoreTimestamp 1709294400 0) \<noteq>
     ([], Inr (PStr ''2024-03-01T12:00:00.000Z''))"
  by code_simp

text \<open>
  Claim C2. With \<^verbatim>\<open>--project-id\<close> the connection should use the given project. In
  the example run the key file belongs to \<open>proj-a\<close> and the override is \<open>proj-b\<close>: the
  override is announced, and the store that is opened is the one of \<open>proj-a\<close>.
\<close>

theorem project_override_not_used:
  "snd (initialize demo_env (demo_args (Some ''proj-b'') 10)) = Inr (demo_store, ''proj-a'') \<and>
   Stdout ''Using override project ID: proj-b'' \<in> set (fst (initialize demo_env (demo_args (Some ''proj-b'') 10))) \<and>
   database demo_env ''proj-b'' = deep_store"
  by (simp add: initialize_def demo_env_def demo_args_def truthy_def or_else_def
        initialize_app_def app_project_id_def firestore_client_def Let_def)

text \<open>
  Claim C3, as stated: a value whose serialization fails is logged to the diagnostic
  stream and replaced by a placeholder, and its document and collection go on. In the
  example store the first document of \<open>logs\<close> holds a value whose \<^verbatim>\<open>str\<close> raises: the
  exception leaves the serializer and the encoder, nothing is written to the
  diagnostic stream, the document is not printed, the handler of the collection
  prints its warning on the standard output, and the second document is never
  visited.
\<close>

theorem serialization_failure_abandons_collection:
  "fst (documents demo_store logs) = [log1, log2] \<and>
   to_dict log1 = PDict [(''payload'', Other ''Weird'' (Inl boom) False), (''level'', PInt 3)] \<and>
   dump_collection demo_store logs 0 10 True =
     [SeparatorNL 0, ProcessingCollection 0 ''logs'', Separator 0, FetchingAll 0 ''logs'',
      Fetch (Query logs None), DocumentHeader 1 ''l1'',
      WarningError ''logs'', ErrorDetails 0 boom] \<and>
   render (\<lambda>j. []) (WarningError ''logs'') =
     Some (StandardOutput, newline @ ''!!! Warning: Error processing collection '' @ apostrophe @
           ''logs'' @ apostrophe @ ''. Skipping collection. !!!'')"
  by (simp add: dump_collection_within dump_documents_Cons demo_defs serializer_defs render_def)

text \<open>
  Claim C3, amended. Let a field of a document hold a value the encoder does not
  encode itself, let the documents streamed before that document have been processed
  without an exception, and let the fields before it be encoded.
  When the serializer returns for the value, it writes no warning, the value is
  replaced inline by the encoding of what it returned, the other fields are encoded
  as they are, the document is printed, its subcollections are visited and the loop
  goes on with the documents after it.
  When the serializer raises for the value, the document is not printed, and the
  trace of the collection ends after the document's header with the warning that
  names the collection and the error: the documents after it are not visited.
\<close>

theorem serializer_replaces_inline:
  "needs_hook v \<Longrightarrow>
   (\<forall>ws r. json_serializer v = (ws, Inr r) \<longrightarrow>
      ws = [] \<and>
      json_dumps_default (PDict (kvs1 @ (k, v) # kvs2)) =
      json_dumps_default (PDict (kvs1 @ (k, r) # kvs2))) \<and>
   (\<forall>ws r. json_serializer v = (ws, Inr r) \<and> \<not> m < d \<and>
      stream st (Query c (if nl then None else Some 5)) = (pre @ s # rest, err) \<and>
      snd (dump_documents st pre d m nl 0) = Inr n \<and>
      to_dict s = PDict (kvs1 @ (k, v) # kvs2) \<and>
      snd (json_dumps_default_items kvs1) = Inr js1 \<and>
      snd (json_dumps_default_items kvs2) = Inr js2 \<and>
      collections st (reference s) = Inr subs \<longrightarrow>
      (\<exists>jr. json_dumps r = Inr jr \<and>
         dump_collection st c d m nl =
           [SeparatorNL d, ProcessingCollection d (col_id c), Separator d,
            (if nl then FetchingAll d (col_id c) else FetchingUpTo d 5 (col_id c)),
            Fetch (Query c (if nl then None else Some 5))] @
           fst (dump_documents st pre d m nl 0) @
           [DocumentHeader (d + 1) (doc_id (reference s)),
            DocumentJson (JObject (js1 @ (k, jr) # js2)),
            ListCollections (reference s)] @
           (if subs \<noteq> [] then
              CheckingSubcollections (d + 1) (doc_id (reference s)) #
              dump_subcollections st subs d m nl
            else []) @
           fst (dump_documents st rest d m nl (n + 1)) @
           (case snd (dump_documents st rest d m nl (n + 1)) of
              Inl e \<Rightarrow> [WarningError (col_id c), ErrorDetails d e]
            | Inr cnt \<Rightarrow>
                (case err of
                   Some e \<Rightarrow> [WarningError (col_id c), ErrorDetails d e]
                 | None \<Rightarrow> [])))) \<and>
   (\<forall>ws e. json_serializer v = (ws, Inl e) \<and> \<not> m < d \<and>
      stream st (Query c (if nl then None else Some 5)) = (pre @ s # rest, err) \<and>
      snd (dump_documents st pre d m nl 0) = Inr n \<and>
      to_dict s = PDict (kvs1 @ (k, v) # kvs2) \<and>
      snd (json_dumps_default_items kvs1) = Inr js1 \<longrightarrow>
      dump_collection st c d m nl =
        [SeparatorNL d, ProcessingCollection d (col_id c), Separator d,
         (if nl then FetchingAll d (col_id c) else FetchingUpTo d 5 (col_id c)),
         Fetch (Query c (if nl then None else Some 5))] @
        fst (dump_documents st pre d m nl 0) @
        [DocumentHeader (d + 1) (doc_id (reference s)),
         WarningError (col_id c), ErrorDetails d e])"
proof (intro conjI allI impI)
  fix ws r
  assume hook: "needs_hook v" and ret: "json_serializer v = (ws, Inr r)"
  from hook_result_is_plain [OF hook ret] show "ws = []" by simp
  have "json_dumps_default v = default_hook v"
    by (rule hook_is_called [OF hook])
  also have "\<dots> = (ws, json_dumps r)"
    by (simp only: default_hook_def ret prod.case sum.case)
  also have "\<dots> = json_dumps_default r"
    using hook_result_is_plain [OF hook ret] by simp
  finally have "json_dumps_default v = json_dumps_default r" .
  then have "json_dumps_default_items (kvs1 @ (k, v) # kvs2) =
      json_dumps_default_items (kvs1 @ (k, r) # kvs2)"
    by (rule items_replace)
  then show "json_dumps_default (PDict (kvs1 @ (k, v) # kvs2)) =
      json_dumps_default (PDict (kvs1 @ (k, r) # kvs2))"
    by (simp only: json_dumps_default.simps)
next
  fix ws r
  assume hook: "needs_hook v"
    and *: "json_serializer v = (ws, Inr r) \<and> \<not> m < d \<and>
      stream st (Query c (if nl then None else Some 5)) = (pre @ s # rest, err) \<and>
      snd (dump_documents st pre d m nl 0) = Inr n \<and>
      to_dict s = PDict (kvs1 @ (k, v) # kvs2) \<and>
      snd (json_dumps_default_items kvs1) = Inr js1 \<and>
      snd (json_dumps_default_items kvs2) = Inr js2 \<and>
      collections st (reference s) = Inr subs"
  from * have ret: "json_serializer v = (ws, Inr r)" by blast
  from * have within: "\<not> m < d" by blast
  from * have docs: "stream st (Query c (if nl then None else Some 5)) = (pre @ s # rest, err)"
    by blast
  from * have earlier: "snd (dump_documents st pre d m nl 0) = Inr n" by blast
  from * have data: "to_dict s = PDict (kvs1 @ (k, v) # kvs2)" by blast
  from * have before: "snd (json_dumps_default_items kvs1) = Inr js1" by blast
  from * have after: "snd (json_dumps_default_items kvs2) = Inr js2" by blast
  from * have subs: "collections st (reference s) = Inr subs" by blast
  from hook_result_encodes [OF hook ret] obtain jr where jr: "json_dumps r = Inr jr" by blast
  from hook_result_is_plain [OF hook ret] have nil: "ws = []" by simp
  have "json_dumps_default v = default_hook v"
    by (rule hook_is_called [OF hook])
  also have "\<dots> = (ws, json_dumps r)"
    by (simp only: default_hook_def ret prod.case sum.case)
  finally have enc_v: "json_dumps_default v = ([], Inr jr)"
    by (simp only: nil jr)
  have items: "json_dumps_default_items (kvs1 @ (k, v) # kvs2) = ([], Inr (js1 @ (k, jr) # js2))"
    using before enc_v after by (rule items_encode)
  have encoded: "json_dumps_default (to_dict s) = ([], Inr (JObject (js1 @ (k, jr) # js2)))"
    by (simp only: data json_dumps_default.simps items prod.case sum.case)
  have step: "dump_documents st (s # rest) d m nl n =
      (DocumentHeader (d + 1) (doc_id (reference s)) #
       DocumentJson (JObject (js1 @ (k, jr) # js2)) #
       ListCollections (reference s) #
       (if subs \<noteq> [] then
          CheckingSubcollections (d + 1) (doc_id (reference s)) #
          dump_subcollections st subs d m nl
        else []) @
       fst (dump_documents st rest d m nl (n + 1)),
       snd (dump_documents st rest d m nl (n + 1)))"
    by (simp add: dump_documents_Cons encoded subs)
  have loop: "dump_documents st (pre @ s # rest) d m nl 0 =
      (fst (dump_documents st pre d m nl 0) @ fst (dump_documents st (s # rest) d m nl n),
       snd (dump_documents st (s # rest) d m nl n))"
    using earlier by (rule dump_documents_append)
  have n: "n = int (length pre)"
    using dump_documents_count [OF earlier] by simp
  have positive: "\<And>cnt. snd (dump_documents st rest d m nl (n + 1)) = Inr cnt \<Longrightarrow> cnt \<noteq> 0"
    using dump_documents_count [of st rest d m nl "n + 1"] n by auto
  have "dump_collection st c d m nl =
           [SeparatorNL d, ProcessingCollection d (col_id c), Separator d,
            (if nl then FetchingAll d (col_id c) else FetchingUpTo d 5 (col_id c)),
            Fetch (Query c (if nl then None else Some 5))] @
           fst (dump_documents st pre d m nl 0) @
           [DocumentHeader (d + 1) (doc_id (reference s)),
            DocumentJson (JObject (js1 @ (k, jr) # js2)),
            ListCollections (reference s)] @
           (if subs \<noteq> [] then
              CheckingSubcollections (d + 1) (doc_id (reference s)) #
              dump_subcollections st subs d m nl
            else []) @
           fst (dump_documents st rest d m nl (n + 1)) @
           (case snd (dump_documents st rest d m nl (n + 1)) of
              Inl e \<Rightarrow> [WarningError (col_id c), ErrorDetails d e]
            | Inr cnt \<Rightarrow>
                (case err of
                   Some e \<Rightarrow> [WarningError (col_id c), ErrorDetails d e]
                 | None \<Rightarrow> []))"
  proof (cases "snd (dump_documents st rest d m nl (n + 1))")
    case (Inl e)
    then show ?thesis
      by (simp add: dump_collection_within [OF within] docs loop step split del: if_split)
  next
    case (Inr cnt)
    with positive have "cnt \<noteq> 0" by blast
    with Inr show ?thesis
      by (cases err)
         (simp_all add: dump_collection_within [OF within] docs loop step split del: if_split)
  qed
  with jr show "\<exists>jr. json_dumps r = Inr jr \<and>
         dump_collection st c d m nl =
           [SeparatorNL d, ProcessingCollection d (col_id c), Separator d,
            (if nl then FetchingAll d (col_id c) else FetchingUpTo d 5 (col_id c)),
            Fetch (Query c (if nl then None else Some 5))] @
           fst (dump_documents st pre d m nl 0) @
           [DocumentHeader (d + 1) (doc_id (reference s)),
            DocumentJson (JObject (js1 @ (k, jr) # js2)),
            ListCollections (reference s)] @
           (if subs \<noteq> [] then
              CheckingSubcollections (d + 1) (doc_id (reference s)) #
              dump_subcollections st subs d m nl
            else []) @
           fst (dump_documents st rest d m nl (n + 1)) @
           (case snd (dump_documents st rest d m nl (n + 1)) of
              Inl e \<Rightarrow> [WarningError (col_id c), ErrorDetails d e]
            | Inr cnt \<Rightarrow>
                (case err of
                   Some e \<Rightarrow> [WarningError (col_id c), ErrorDetails d e]
                 | None \<Rightarrow> []))"
    by blast
next
  fix ws e
  assume hook: "needs_hook v"
    and *: "json_serializer v = (ws, Inl e) \<and> \<not> m < d \<and>
      stream st (Query c (if nl then None else Some 5)) = (pre @ s # rest, err) \<and>
      snd (dump_documents st pre d m nl 0) = Inr n \<and>
      to_dict s = PDict (kvs1 @ (k, v) # kvs2) \<and>
      snd (json_dumps_default_items kvs1) = Inr js1"
  from * have raised: "json_serializer v = (ws, Inl e)" by blast
  from * have within: "\<not> m < d" by blast
  from * have docs: "stream st (Query c (if nl then None else Some 5)) = (pre @ s # rest, err)"
    by blast
  from * have earlier: "snd (dump_documents st pre d m nl 0) = Inr n" by blast
  from * have data: "to_dict s = PDict (kvs1 @ (k, v) # kvs2)" by blast
  from * have before: "snd (json_dumps_default_items kvs1) = Inr js1" by blast
  have "json_dumps_default v = (ws, Inl e)"
    by (simp only: hook_is_called [OF hook] default_hook_def raised prod.case sum.case)
  then have "snd (json_dumps_default v) = Inl e" by simp
  with before have items: "snd (json_dumps_default_items (kvs1 @ (k, v) # kvs2)) = Inl e"
    by (rule items_fail)
  have failed: "snd (json_dumps_default (to_dict s)) = Inl e"
  proof (cases "json_dumps_default_items (kvs1 @ (k, v) # kvs2)")
    case (Pair ws' res)
    with items have "res = Inl e" by simp
    with Pair show ?thesis by (simp add: data)
  qed
  have step: "dump_documents st (s # rest) d m nl n =
      ([DocumentHeader (d + 1) (doc_id (reference s))], Inl e)"
    by (simp add: dump_documents_Cons failed)
  have loop: "dump_documents st (pre @ s # rest) d m nl 0 =
      (fst (dump_documents st pre d m nl 0) @ fst (dump_documents st (s # rest) d m nl n),
       snd (dump_documents st (s # rest) d m nl n))"
    using earlier by (rule dump_documents_append)
  show "dump_collection st c d m nl =
        [SeparatorNL d, ProcessingCollection d (col_id c), Separator d,
         (if nl then FetchingAll d (col_id c) else FetchingUpTo d 5 (col_id c)),
         Fetch (Query c (if nl then None else Some 5))] @
        fst (dump_documents st pre d m nl 0) @
        [DocumentHeader (d + 1) (doc_id (reference s)),
         WarningError (col_id c), ErrorDetails d e]"
    by (simp add: dump_collection_within [OF within] docs loop step)
qed



theorem serializer_replaces_inline_witness:
  "needs_hook (DocumentReference (DocRef ''alice'' ''users/alice'')) \<and>
   json_serializer (DocumentReference (DocRef ''alice'' ''users/alice'')) =
     ([], Inr (PStr (''Reference(path='' @ apostrophe @ ''users/alice'' @ apostrophe @ '')''))) \<and>
   needs_hook (Other ''Weird'' (Inl boom) False) \<and>
   json_serializer (Other ''Weird'' (Inl boom) False) = ([], Inl boom) \<and>
   stream audit_store (Query audit None) = ([audit1, audit2, audit3, audit4], None) \<and>
   snd (dump_documents audit_store [audit1] 0 10 True 0) = Inr 1 \<and>
   snd (dump_documents audit_store [audit1, audit2] 0 10 True 0) = Inr 2 \<and>
   DocumentJson (JObject [(''level'', JInt 2),
        (''who'', JString (''Reference(path='' @ apostrophe @ ''users/alice'' @ apostrophe @ '')'')),
        (''ok'', JBool True)]) \<in> set (dump_collection audit_store audit 0 10 True) \<and>
   dump_collection audit_store audit 0 10 True =
     [SeparatorNL 0, ProcessingCollection 0 ''audit'', Separator 0, FetchingAll 0 ''audit'',
      Fetch (Query audit None),
      DocumentHeader 1 ''a1'', DocumentJson (JObject [(''level'', JInt 1)]),
      ListCollections (DocRef ''a1'' ''audit/a1''),
      DocumentHeader 1 ''a2'',
      DocumentJson (JObject [(''level'', JInt 2),
        (''who'', JString (''Reference(path='' @ apostrophe @ ''users/alice'' @ apostrophe @ '')'')),
        (''ok'', JBool True)]),
      ListCollections (DocRef ''a2'' ''audit/a2''),
      DocumentHeader 1 ''a3'', WarningError ''audit'', ErrorDetails 0 boom]"
proof -
  let ?ref = "DocumentReference (DocRef ''alice'' ''users/alice'')"
  let ?txt = "''Reference(path='' @ apostrophe @ ''users/alice'' @ apostrophe @ '')''"
  let ?bad = "Other ''Weird'' (Inl boom) False"
  have hook1: "needs_hook ?ref" by (simp add: needs_hook_def)
  have ser1: "json_serializer ?ref = ([], Inr (PStr ?txt))" by (simp add: serializer_defs)
  have hook2: "needs_hook ?bad" by (simp add: needs_hook_def)
  have ser2: "json_serializer ?bad = ([], Inl boom)" by (simp add: serializer_defs)
  have docs: "stream audit_store (Query audit None) = ([audit1, audit2, audit3, audit4], None)"
    by (simp add: stream_def audit_store_def)
  have run1: "dump_documents audit_store [audit1] 0 10 True 0 =
      ([DocumentHeader 1 ''a1'', DocumentJson (JObject [(''level'', JInt 1)]),
        ListCollections (DocRef ''a1'' ''audit/a1'')], Inr 1)"
    by (simp add: dump_documents_Cons audit_store_def audit1_def)
  have run2: "dump_documents audit_store [audit1, audit2] 0 10 True 0 =
      ([DocumentHeader 1 ''a1'', DocumentJson (JObject [(''level'', JInt 1)]),
        ListCollections (DocRef ''a1'' ''audit/a1''),
        DocumentHeader 1 ''a2'',
        DocumentJson (JObject [(''level'', JInt 2), (''who'', JString ?txt), (''ok'', JBool True)]),
        ListCollections (DocRef ''a2'' ''audit/a2'')], Inr 2)"
    by (simp add: dump_documents_Cons audit_store_def audit1_def audit2_def serializer_defs)
  have hyp2: "json_serializer ?ref = ([], Inr (PStr ?txt)) \<and> \<not> (10::int) < 0 \<and>
      stream audit_store (Query audit (if True then None else Some 5)) =
        ([audit1] @ audit2 # [audit3, audit4], None) \<and>
      snd (dump_documents audit_store [audit1] 0 10 True 0) = Inr 1 \<and>
      to_dict audit2 = PDict ([(''level'', PInt 2)] @ (''who'', ?ref) # [(''ok'', PBool True)]) \<and>
      snd (json_dumps_default_items [(''level'', PInt 2)]) = Inr [(''level'', JInt 2)] \<and>
      snd (json_dumps_default_items [(''ok'', PBool True)]) = Inr [(''ok'', JBool True)] \<and>
      collections audit_store (reference audit2) = Inr []"
    by (simp add: run1) (simp add: serializer_defs stream_def audit_store_def audit2_def)
  have hyp3: "json_serializer ?bad = ([], Inl boom) \<and> \<not> (10::int) < 0 \<and>
      stream audit_store (Query audit (if True then None else Some 5)) =
        ([audit1, audit2] @ audit3 # [audit4], None) \<and>
      snd (dump_documents audit_store [audit1, audit2] 0 10 True 0) = Inr 2 \<and>
      to_dict audit3 = PDict ([(''level'', PInt 3)] @ (''payload'', ?bad) # [(''ok'', PBool False)]) \<and>
      snd (json_dumps_default_items [(''level'', PInt 3)]) = Inr [(''level'', JInt 3)]"
    by (simp add: run2) (simp add: serializer_defs stream_def audit_store_def audit3_def)
  note replaced =
    serializer_replaces_inline [OF hook1, THEN conjunct2, THEN conjunct1, rule_format, OF hyp2]
  note abandoned =
    serializer_replaces_inline [OF hook2, THEN conjunct2, THEN conjunct2, rule_format, OF hyp3]
  from replaced
  have "\<exists>jr. json_dumps (PStr ?txt) = Inr jr \<and>
      DocumentJson (JObject ([(''level'', JInt 2)] @ [(''who'', jr), (''ok'', JBool True)]))
        \<in> set (dump_collection audit_store audit 0 10 True)"
    by (elim exE conjE) (rule exI, rule conjI, assumption, simp)
  then have printed: "DocumentJson (JObject [(''level'', JInt 2), (''who'', JString ?txt),
        (''ok'', JBool True)]) \<in> set (dump_collection audit_store audit 0 10 True)"
    by auto
  have trace: "dump_collection audit_store audit 0 10 True =
     [SeparatorNL 0, ProcessingCollection 0 ''audit'', Separator 0, FetchingAll 0 ''audit'',
      Fetch (Query audit None),
      DocumentHeader 1 ''a1'', DocumentJson (JObject [(''level'', JInt 1)]),
      ListCollections (DocRef ''a1'' ''audit/a1''),
      DocumentHeader 1 ''a2'',
      DocumentJson (JObject [(''level'', JInt 2), (''who'', JString ?txt), (''ok'', JBool True)]),
      ListCollections (DocRef ''a2'' ''audit/a2''),
      DocumentHeader 1 ''a3'', WarningError ''audit'', ErrorDetails 0 boom]"
    by (simp only: abandoned run2) (simp add: audit_def audit3_def)
  have count1: "snd (dump_documents audit_store [audit1] 0 10 True 0) = Inr 1"
    by (simp only: run1 snd_conv)
  have count2: "snd (dump_documents audit_store [audit1, audit2] 0 10 True 0) = Inr 2"
    by (simp only: run2 snd_conv)
  show ?thesis
    by (intro conjI) (rule hook1 ser1 hook2 ser2 docs count1 count2 printed trace)+
qed

text \<open>
  Claim C4, as stated: when \<^verbatim>\<open>str(obj)\<close> raises, the serializer returns
  \<^verbatim>\<open>Unserializable(<type name>)\<close> and warns on the diagnostic stream. For an object
  whose \<^verbatim>\<open>str\<close> raises, the exception leaves the serializer and nothing is written.
\<close>

theorem generic_fallback_counterexample:
  "json_serializer (Other ''Weird'' (Inl boom) False) = ([], Inl boom) \<and>
   json_serializer (Other ''Weird'' (Inl boom) False) \<noteq>
     ([SerializeWarning ''Weird'' boom], Inr (PStr ''Unserializable(Weird)''))"
  by (simp add: json_serializer_def is_timestamp_class_def has_ToDatetime_def is_DocumentReference_def
        is_GeoPoint_def eq_SERVER_TIMESTAMP_def is_date_def py_str_def)

text \<open>
  Claim C4, amended. For a value that passes the special rules the serializer tries
  \<^verbatim>\<open>json.dumps\<close>: if it succeeds the value is returned as it is; if it raises
  \<^verbatim>\<open>TypeError\<close> the result is \<^verbatim>\<open>str(obj)\<close>, and an exception of \<^verbatim>\<open>str\<close> leaves the
  serializer; if it raises any other exception the result is
  \<^verbatim>\<open>Unserializable(<type name>)\<close> and one warning is written, to the diagnostic
  stream.
\<close>

theorem generic_fallback:
  "no_special_rule obj \<Longrightarrow>
   (\<forall>j. json_dumps obj = Inr j \<longrightarrow> json_serializer obj = ([], Inr obj)) \<and>
   (\<forall>e. json_dumps obj = Inl e \<and> is_TypeError e \<longrightarrow>
        json_serializer obj = ([], return_str obj)) \<and>
   (\<forall>e. json_dumps obj = Inl e \<and> \<not> is_TypeError e \<longrightarrow>
        json_serializer obj =
          ([SerializeWarning (type_name obj) e],
           Inr (PStr (''Unserializable('' @ type_name obj @ '')''))) \<and>
        map_option fst (render layout (SerializeWarning (type_name obj) e)) = Some StandardError)"
  by (auto simp: no_special_rule_def json_serializer_def return_str_def render_def split: sum.splits)

theorem generic_fallback_witness:
  "no_special_rule (PInt 3) \<and> json_dumps (PInt 3) = Inr (JInt 3) \<and>
   json_serializer (PInt 3) = ([], Inr (PInt 3)) \<and>
   no_special_rule (Other ''Weird'' (Inr ''w'') False) \<and>
   is_TypeError (not_serializable (Other ''Weird'' (Inr ''w'') False)) \<and>
   json_serializer (Other ''Weird'' (Inr ''w'') False) = ([], Inr (PStr ''w'')) \<and>
   no_special_rule CyclicList \<and> json_dumps CyclicList = Inl circular \<and> \<not> is_TypeError circular \<and>
   json_serializer CyclicList =
     ([SerializeWarning ''list'' circular], Inr (PStr ''Unserializable(list)'')) \<and>
   map_option fst (render (\<lambda>j. []) (SerializeWarning ''list'' circular)) = Some StandardError"
  using generic_fallback [of "PInt 3" "\<lambda>j. []"]
    generic_fallback [of "Other ''Weird'' (Inr ''w'') False" "\<lambda>j. []"]
    generic_fallback [of CyclicList "\<lambda>j. []"]
  by (simp add: no_special_rule_def is_timestamp_class_def has_ToDatetime_def is_DocumentReference_def
        is_GeoPoint_def eq_SERVER_TIMESTAMP_def is_date_def SERVER_TIMESTAMP_def
        return_str_def py_str_def circular_def is_TypeError_def type_name_def not_serializable_def)

text \<open>
  Claim C5. A call with \<open>current_depth > max_depth\<close> prints the depth-limit notice and
  nothing else: no query is sent, no document is printed and no subcollection is
  visited, whatever the store holds.
\<close>

theorem depth_limit_stops_traversal:
  "m < d \<Longrightarrow>
   dump_collection st c d m nl =
     [MaxDepthNotice d m (col_id c)]"
  by (simp add: dump_collection.simps)

theorem depth_limit_stops_traversal_witness:
  "(1::int) < 2 \<and> length (fst (documents demo_store users)) = 7 \<and>
   collections demo_store (reference (hd (fst (documents demo_store users)))) = Inr [broken, posts] \<and>
   dump_collection demo_store users 2 1 True = [MaxDepthNotice 2 1 ''users'']"
  using depth_limit_stops_traversal [of 1 2 demo_store users True]
  by (simp add: demo_store_def users_def user_doc_def)

text \<open>
  Claim C6. Without \<^verbatim>\<open>--no-limit\<close>, every query a traversal sends carries the limit
  5 and streams at most 5 documents, and at most 5 documents of the collection are
  printed; with the flag, every query is the collection itself and streams all that
  the store holds.
\<close>

theorem fetch_limit:
  "(\<not> nl \<longrightarrow>
      length (filter (is_document_header (d + 1)) (dump_collection st c d m nl)) \<le> 5 \<and>
      list_all (\<lambda>q. query_limit q = Some 5 \<and> length (fst (stream st q)) \<le> 5)
        (fetched (dump_collection st c d m nl))) \<and>
   (nl \<longrightarrow>
      list_all (\<lambda>q. query_limit q = None \<and> stream st q = documents st (query_col q))
        (fetched (dump_collection st c d m nl)))"
proof (cases nl)
  case True
  have "list_all (\<lambda>q. query_limit q = None) (fetched (dump_collection st c d m nl))"
    using fetched_limits [of nl st c d m] True by simp
  then have "list_all (\<lambda>q. query_limit q = None \<and> stream st q = documents st (query_col q))
        (fetched (dump_collection st c d m nl))"
    by (rule list.pred_mono_strong) (simp add: stream_def)
  with True show ?thesis by simp
next
  case False
  have "list_all (\<lambda>q. query_limit q = Some 5) (fetched (dump_collection st c d m nl))"
    using fetched_limits [of nl st c d m] False by simp
  then have lim: "list_all (\<lambda>q. query_limit q = Some 5 \<and> length (fst (stream st q)) \<le> 5)
        (fetched (dump_collection st c d m nl))"
    by (rule list.pred_mono_strong) (simp add: stream_def)
  have "length (filter (is_document_header (d + 1)) (dump_collection st c d m nl))
          \<le> length (fst (stream st (Query c (Some 5))))"
    using headers_of_collection [of d st c m nl] False by simp
  also have "\<dots> \<le> 5" by (rule stream_limit)
  finally show ?thesis using False lim by simp
qed

theorem fetch_limit_witness:
  "length (fst (documents demo_store users)) = 7 \<and>
   length (filter (is_document_header 1) (dump_collection demo_store users 0 10 False)) \<le> 5 \<and>
   fetched (dump_collection demo_store users 0 10 False) =
     [Query users (Some 5), Query broken (Some 5), Query posts (Some 5)] \<and>
   list_all (\<lambda>q. query_limit q = None \<and> stream demo_store q = documents demo_store (query_col q))
     (fetched (dump_collection demo_store users 0 10 True))"
  using fetch_limit [of False 0 demo_store users 10] fetch_limit [of True 0 demo_store users 10]
  by (simp add: users_run broken_run posts_run fetched_append) (simp add: demo_defs)

text \<open>
  Claim C7. When the stream of a collection or the work on one of its documents
  raises, the trace of that collection ends with the warning that names it and the
  error. The loop over sibling collections gives each of them its own trace, before
  and after the failing one; the loop over documents goes on with the next document
  after the subcollections of one, whatever happened in them; the run over the root
  collections does the same and ends with exit code 0.
\<close>

theorem collection_error_is_local:
  "(\<not> m < d \<and>
    (snd (dump_documents st (fst (stream st (Query c (if nl then None else Some 5)))) d m nl 0) = Inl e \<or>
     (\<exists>k. snd (dump_documents st (fst (stream st (Query c (if nl then None else Some 5)))) d m nl 0) = Inr k) \<and>
     snd (stream st (Query c (if nl then None else Some 5))) = Some e) \<longrightarrow>
    dump_collection st c d m nl =
      [SeparatorNL d, ProcessingCollection d (col_id c), Separator d,
       (if nl then FetchingAll d (col_id c) else FetchingUpTo d 5 (col_id c)),
       Fetch (Query c (if nl then None else Some 5))] @
      fst (dump_documents st (fst (stream st (Query c (if nl then None else Some 5)))) d m nl 0) @
      [WarningError (col_id c), ErrorDetails d e]) \<and>
   dump_subcollections st (before @ c # after) d m nl =
     dump_subcollections st before d m nl @ dump_collection st c (d + 1) m nl @
     dump_subcollections st after d m nl \<and>
   (snd (json_dumps_default (to_dict s)) = Inr j \<and> collections st (reference s) = Inr subs \<longrightarrow>
    dump_documents st (s # rest) d m nl k =
      (DocumentHeader (d + 1) (doc_id (reference s)) # DocumentJson j #
       ListCollections (reference s) #
       (if subs \<noteq> [] then
          CheckingSubcollections (d + 1) (doc_id (reference s)) # dump_subcollections st subs d m nl
        else []) @
       fst (dump_documents st rest d m nl (k + 1)),
       snd (dump_documents st rest d m nl (k + 1)))) \<and>
   (root_collections st = Inr (before @ c # after) \<longrightarrow>
    snd (dump_top_level st p a) = 0 \<and>
    (\<exists>pre post. fst (dump_top_level st p a) =
       pre @ concat (map (\<lambda>r. dump_collection st r 0 (max_depth a) (no_limit a)) before) @
       dump_collection st c 0 (max_depth a) (no_limit a) @
       concat (map (\<lambda>r. dump_collection st r 0 (max_depth a) (no_limit a)) after) @ post))"
proof (intro conjI impI)
  assume "\<not> m < d \<and>
    (snd (dump_documents st (fst (stream st (Query c (if nl then None else Some 5)))) d m nl 0) = Inl e \<or>
     (\<exists>k. snd (dump_documents st (fst (stream st (Query c (if nl then None else Some 5)))) d m nl 0) = Inr k) \<and>
     snd (stream st (Query c (if nl then None else Some 5))) = Some e)"
  then show "dump_collection st c d m nl =
      [SeparatorNL d, ProcessingCollection d (col_id c), Separator d,
       (if nl then FetchingAll d (col_id c) else FetchingUpTo d 5 (col_id c)),
       Fetch (Query c (if nl then None else Some 5))] @
      fst (dump_documents st (fst (stream st (Query c (if nl then None else Some 5)))) d m nl 0) @
      [WarningError (col_id c), ErrorDetails d e]"
    by (auto simp: dump_collection_within)
next
  show "dump_subcollections st (before @ c # after) d m nl =
     dump_subcollections st before d m nl @ dump_collection st c (d + 1) m nl @
     dump_subcollections st after d m nl"
    by (simp add: dump_subcollections_append)
next
  assume "snd (json_dumps_default (to_dict s)) = Inr j \<and> collections st (reference s) = Inr subs"
  then show "dump_documents st (s # rest) d m nl k =
      (DocumentHeader (d + 1) (doc_id (reference s)) # DocumentJson j #
       ListCollections (reference s) #
       (if subs \<noteq> [] then
          CheckingSubcollections (d + 1) (doc_id (reference s)) # dump_subcollections st subs d m nl
        else []) @
       fst (dump_documents st rest d m nl (k + 1)),
       snd (dump_documents st rest d m nl (k + 1)))"
    by (simp add: dump_documents_Cons)
next
  assume "root_collections st = Inr (before @ c # after)"
  then show "snd (dump_top_level st p a) = 0"
    by (simp add: dump_top_level_def Let_def)
next
  assume roots: "root_collections st = Inr (before @ c # after)"
  have "fst (dump_top_level st p a) =
       [Stdout (newline @ ''Fetching top-level collections...''), ListRootCollections,
        Stdout (''Found '' @ str_int (int (length (before @ c # after))) @ '' top-level collections.''),
        Stdout (newline @
          ''Fetching data recursively (this may take time and incur read costs)...'')] @
       concat (map (\<lambda>r. dump_collection st r 0 (max_depth a) (no_limit a)) before) @
       dump_collection st c 0 (max_depth a) (no_limit a) @
       concat (map (\<lambda>r. dump_collection st r 0 (max_depth a) (no_limit a)) after) @
       [Stdout (newline @ dashes), Stdout (''--- End of Firestore Data Dump ('' @ p @ '') ---'')]"
    using roots by (simp add: dump_top_level_def Let_def)
  then show "\<exists>pre post. fst (dump_top_level st p a) =
       pre @ concat (map (\<lambda>r. dump_collection st r 0 (max_depth a) (no_limit a)) before) @
       dump_collection st c 0 (max_depth a) (no_limit a) @
       concat (map (\<lambda>r. dump_collection st r 0 (max_depth a) (no_limit a)) after) @ post"
    by blast
qed

theorem collection_error_is_local_witness:
  "\<not> (10::int) < 1 \<and> stream demo_store (Query broken (Some 5)) = ([], Some unavailable) \<and>
   dump_collection demo_store broken 1 10 False =
     [SeparatorNL 1, ProcessingCollection 1 ''broken'', Separator 1, FetchingUpTo 1 5 ''broken'',
      Fetch (Query broken (Some 5)), WarningError ''broken'', ErrorDetails 1 unavailable] \<and>
   dump_subcollections demo_store [broken, posts] 0 10 False =
     dump_collection demo_store broken 1 10 False @ dump_collection demo_store posts 1 10 False \<and>
   DocumentHeader 2 ''p1'' \<in> set (dump_collection demo_store posts 1 10 False) \<and>
   DocumentHeader 1 ''bob'' \<in> set (dump_collection demo_store users 0 10 False)"
  using collection_error_is_local [of 10 1 demo_store broken False unavailable "[]" "[posts]"
      "user_doc ''alice''" "JObject [(''name'', JString ''alice'')]" "[broken, posts]"
      "[user_doc ''bob'']" 0 "''proj-a''" "demo_args None 10"]
  by (simp add: users_run posts_run broken_run) (simp add: demo_defs)

text \<open>
  Claim C8. A visited collection whose stream yields no document prints the notice
  that names it as empty, after the banner and the fetch message, and no document
  header.
\<close>

theorem empty_collection_notice:
  "\<not> m < d \<Longrightarrow>
   stream st (Query c (if nl then None else Some 5)) = ([], None) \<Longrightarrow>
   dump_collection st c d m nl =
     [SeparatorNL d,
      ProcessingCollection d (col_id c),
      Separator d,
      (if nl then FetchingAll d (col_id c)
       else FetchingUpTo d 5 (col_id c)),
      Fetch (Query c (if nl then None else Some 5)),
      EmptyCollection (d + 1) (col_id c)]"
  by (simp add: dump_collection_within)

theorem empty_collection_notice_witness:
  "\<not> (10::int) < 0 \<and> stream demo_store (Query archive (Some 5)) = ([], None) \<and>
   dump_collection demo_store archive 0 10 False =
     [SeparatorNL 0, ProcessingCollection 0 ''archive'', Separator 0,
      FetchingUpTo 0 5 ''archive'', Fetch (Query archive (Some 5)),
      EmptyCollection 1 ''archive''] \<and>
   map (render (\<lambda>j. [])) [EmptyCollection 1 ''archive''] =
     [Some (StandardOutput, ''  (Collection '' @ apostrophe @ ''archive'' @ apostrophe @
            '' appears empty or has no documents directly within it)'')]"
  using empty_collection_notice [of 10 0 demo_store archive False]
  by (simp add: stream_def demo_store_def archive_def users_def broken_def posts_def logs_def
        render_def indent_def)

text \<open>
  Claim C9. On every store (documents and subcollections come as finite lists, the
  depth of the tree is not bounded) every chain of calls from \<open>dump_collection\<close> is
  finite, and every call in a traversal started at depth \<open>d\<close> is at a depth between
  \<open>d\<close> and \<open>max d (max_depth + 1)\<close>.
\<close>

theorem traversal_terminates:
  "dump_collection_dump_documents_dump_subcollections_dom (Inl (st, c, d, m, nl)) \<and>
   list_all (\<lambda>k. d \<le> k \<and> k \<le> max d (m + 1)) (call_depths (dump_collection st c d m nl))"
proof
  have "All dump_collection_dump_documents_dump_subcollections_dom"
    by (relation "measures
        [case_sum (\<lambda>(st, c, d, m, nl). nat (m + 1 - d))
           (case_sum (\<lambda>(st, ds, d, m, nl, cnt). nat (m - d)) (\<lambda>(st, ss, d, m, nl). nat (m - d))),
         case_sum (\<lambda>x. 0) (case_sum (\<lambda>x. 2) (\<lambda>x. Suc 0)),
         case_sum (\<lambda>x. 0)
           (case_sum (\<lambda>(st, ds, d, m, nl, cnt). length ds) (\<lambda>(st, ss, d, m, nl). length ss))]")
       auto
  then show "dump_collection_dump_documents_dump_subcollections_dom (Inl (st, c, d, m, nl))"
    by blast
next
  show "list_all (\<lambda>k. d \<le> k \<and> k \<le> max d (m + 1)) (call_depths (dump_collection st c d m nl))"
    by (rule call_depths_bounded)
qed

theorem traversal_terminates_witness:
  "dump_collection_dump_documents_dump_subcollections_dom
     (Inl (deep_store, ColRef ''sub'' ''sub'', 0, 2, False)) \<and>
   call_depths (dump_collection deep_store (ColRef ''sub'' ''sub'') 0 2 False) = [0, 1, 2, 3] \<and>
   collections deep_store (DocRef ''d'' ''sub/d/sub/d/sub/d'') = Inr [ColRef ''sub'' ''sub/d/sub/d/sub/d/sub'']"
  using traversal_terminates [of deep_store "ColRef ''sub'' ''sub''" 0 2 False]
  by (simp add: dump_collection_within dump_collection_beyond dump_documents_Cons deep_store_def stream_def)



end
